theory Spec2Isabelle
  imports Complex_Main "HOL-Library.Word" "HOL-Library.Signed_Division"
    "HOL-Library.Char_ord" "HOL-Library.List_Lexorder"
begin

section \<open>The omnipos gateway: rate limiter, auth interceptor, response marshaler\<close>

text \<open>
  A shallow embedding of the gateway's admission pipeline. Go strings are byte sequences
  and are modelled as \<open>string\<close> (a list of 8-bit characters). Go's \<open>int\<close> and
  \<open>time.Duration\<close> values are modelled as \<open>int\<close> where the code only compares,
  prints or divides them by a positive constant, and as machine words where the code
  converts between integer types. Calls to the logger do not touch the request, the
  response or the call context and are left out.
\<close>

subsection \<open>Functions of Go's standard library used by the code\<close>

text \<open>\<open>strings.HasPrefix\<close> and \<open>strings.TrimPrefix\<close>.\<close>

definition HasPrefix :: "string \<Rightarrow> string \<Rightarrow> bool" where
  "HasPrefix s prefix = (length prefix \<le> length s \<and> take (length prefix) s = prefix)"

definition TrimPrefix :: "string \<Rightarrow> string \<Rightarrow> string" where
  "TrimPrefix s prefix = (if HasPrefix s prefix then drop (length prefix) s else s)"

text \<open>
  \<open>strings.Contains\<close>, \<open>strings.LastIndex\<close> and \<open>strings.Split\<close>, for the
  one-byte separators the code passes ("," and ":"). \<open>LastIndex\<close> is -1 when the
  byte does not occur. \<open>Split\<close> of the empty string is the one-element list holding
  the empty string, as in Go.
\<close>

definition Contains :: "string \<Rightarrow> char \<Rightarrow> bool" where
  "Contains s c = (c \<in> set s)"

fun LastIndex :: "string \<Rightarrow> char \<Rightarrow> int" where
  "LastIndex [] c = -1"
| "LastIndex (x # xs) c =
     (let r = LastIndex xs c in
      if 0 \<le> r then r + 1 else if x = c then 0 else -1)"

fun Split :: "string \<Rightarrow> char \<Rightarrow> string list" where
  "Split [] c = [[]]"
| "Split (x # xs) c =
     (if x = c then [] # Split xs c
      else (case Split xs c of
              [] \<Rightarrow> [[x]]
            | p # ps \<Rightarrow> (x # p) # ps))"

text \<open>
  \<open>strings.TrimSpace\<close> removes leading and trailing white space as
  \<open>unicode.IsSpace\<close> defines it: six ASCII bytes, and the runes U+0085, U+00A0, U+1680,
  U+2000 to U+200A, U+2028, U+2029, U+202F, U+205F and U+3000, which a Go string holds in
  UTF-8. A byte sequence that is not one of these encodings decodes to a rune that is
  not white space.
\<close>

definition asciiSpace :: "char \<Rightarrow> bool" where
  "asciiSpace c = (c \<in> set [CHR 0x09, CHR 0x0A, CHR 0x0B, CHR 0x0C, CHR 0x0D, CHR 0x20])"

definition unicodeSpaces :: "string list" where
  "unicodeSpaces =
     [[CHR 0xC2, CHR 0x85], [CHR 0xC2, CHR 0xA0], [CHR 0xE1, CHR 0x9A, CHR 0x80],
      [CHR 0xE2, CHR 0x80, CHR 0x80], [CHR 0xE2, CHR 0x80, CHR 0x81],
      [CHR 0xE2, CHR 0x80, CHR 0x82], [CHR 0xE2, CHR 0x80, CHR 0x83],
      [CHR 0xE2, CHR 0x80, CHR 0x84], [CHR 0xE2, CHR 0x80, CHR 0x85],
      [CHR 0xE2, CHR 0x80, CHR 0x86], [CHR 0xE2, CHR 0x80, CHR 0x87],
      [CHR 0xE2, CHR 0x80, CHR 0x88], [CHR 0xE2, CHR 0x80, CHR 0x89],
      [CHR 0xE2, CHR 0x80, CHR 0x8A], [CHR 0xE2, CHR 0x80, CHR 0xA8],
      [CHR 0xE2, CHR 0x80, CHR 0xA9], [CHR 0xE2, CHR 0x80, CHR 0xAF],
      [CHR 0xE2, CHR 0x81, CHR 0x9F], [CHR 0xE3, CHR 0x80, CHR 0x80]]"

text \<open>The width in bytes of the white-space rune a string starts with, 0 if it starts with none.\<close>

definition spaceWidth :: "string \<Rightarrow> nat" where
  "spaceWidth s =
     (case s of
        [] \<Rightarrow> 0
      | c # _ \<Rightarrow>
          if asciiSpace c then 1
          else (case filter (HasPrefix s) unicodeSpaces of
                  [] \<Rightarrow> 0
                | u # _ \<Rightarrow> length u))"

function TrimLeftSpace :: "string \<Rightarrow> string" where
  "TrimLeftSpace s = (if spaceWidth s = 0 then s else TrimLeftSpace (drop (spaceWidth s) s))"
  by pat_completeness auto
termination
proof (relation "measure length")
  show "wf (measure length)" by simp
next
  fix s :: string
  assume "spaceWidth s \<noteq> 0"
  then have "s \<noteq> []" by (auto simp: spaceWidth_def)
  with \<open>spaceWidth s \<noteq> 0\<close> show "(drop (spaceWidth s) s, s) \<in> measure length"
    by (cases s) auto
qed

text \<open>
  Trimming on the right decodes the last rune; the encodings above end in continuation
  bytes and start with a lead byte, so the last rune is white space exactly when the
  string ends with an ASCII white-space byte or with one of the encodings.
\<close>

definition spaceWidthEnd :: "string \<Rightarrow> nat" where
  "spaceWidthEnd s =
     (case rev s of
        [] \<Rightarrow> 0
      | c # _ \<Rightarrow>
          if asciiSpace c then 1
          else (case filter (\<lambda>u. HasPrefix (rev s) (rev u)) unicodeSpaces of
                  [] \<Rightarrow> 0
                | u # _ \<Rightarrow> length u))"

function TrimRightSpace :: "string \<Rightarrow> string" where
  "TrimRightSpace s =
     (if spaceWidthEnd s = 0 then s
      else TrimRightSpace (take (length s - spaceWidthEnd s) s))"
  by pat_completeness auto
termination
proof (relation "measure length")
  show "wf (measure length)" by simp
next
  fix s :: string
  assume nz: "spaceWidthEnd s \<noteq> 0"
  then have "s \<noteq> []" by (auto simp: spaceWidthEnd_def)
  with nz show "(take (length s - spaceWidthEnd s) s, s) \<in> measure length"
    by (cases s) auto
qed

definition TrimSpace :: "string \<Rightarrow> string" where
  "TrimSpace s = TrimRightSpace (TrimLeftSpace s)"

text \<open>\<open>fmt.Sprintf("%d", n)\<close>: the decimal digits of an integer, with a minus sign when negative.\<close>

function digits :: "nat \<Rightarrow> string" where
  "digits n = (if n < 10 then [char_of (48 + n)] else digits (n div 10) @ [char_of (48 + n mod 10)])"
  by pat_completeness auto
termination
  by (relation "measure id") auto

definition Sprintf_d :: "int \<Rightarrow> string" where
  "Sprintf_d n = (if n < 0 then CHR ''-'' # digits (nat (- n)) else digits (nat n))"

subsection \<open>HTTP requests, headers and response writers (net/http)\<close>

text \<open>
  An \<open>http.Header\<close> maps canonical header names to their values. \<open>Get\<close>,
  \<open>Set\<close> and \<open>Del\<close> canonicalise the name they are given
  (\<open>textproto.CanonicalMIMEHeaderKey\<close>: the first letter and every letter after a
  hyphen in upper case, the others in lower case; a name that is not a token is left as it
  is). \<open>Get\<close> is the first value, or the empty string when there is none.
\<close>

type_synonym Header = "string \<rightharpoonup> string list"

definition isLower :: "char \<Rightarrow> bool" where
  "isLower c = (97 \<le> (of_char c :: nat) \<and> (of_char c :: nat) \<le> 122)"

definition isUpper :: "char \<Rightarrow> bool" where
  "isUpper c = (65 \<le> (of_char c :: nat) \<and> (of_char c :: nat) \<le> 90)"

definition isDigit :: "char \<Rightarrow> bool" where
  "isDigit c = (48 \<le> (of_char c :: nat) \<and> (of_char c :: nat) \<le> 57)"

definition validHeaderFieldByte :: "char \<Rightarrow> bool" where
  "validHeaderFieldByte c =
     (isLower c \<or> isUpper c \<or> isDigit c \<or>
      c \<in> set [CHR 0x21, CHR 0x23, CHR 0x24, CHR 0x25, CHR 0x26, CHR 0x27, CHR 0x2A,
                 CHR 0x2B, CHR 0x2D, CHR 0x2E, CHR 0x5E, CHR 0x5F, CHR 0x60, CHR 0x7C,
                 CHR 0x7E])"

fun canonicalBytes :: "bool \<Rightarrow> string \<Rightarrow> string" where
  "canonicalBytes upper [] = []"
| "canonicalBytes upper (c # cs) =
     (let c' = (if upper \<and> isLower c then char_of ((of_char c :: nat) - 32)
                else if \<not> upper \<and> isUpper c then char_of ((of_char c :: nat) + 32)
                else c)
      in c' # canonicalBytes (c' = CHR 0x2D) cs)"

definition CanonicalMIMEHeaderKey :: "string \<Rightarrow> string" where
  "CanonicalMIMEHeaderKey s = (if list_all validHeaderFieldByte s then canonicalBytes True s else s)"

definition Header_Get :: "Header \<Rightarrow> string \<Rightarrow> string" where
  "Header_Get h key =
     (case h (CanonicalMIMEHeaderKey key) of
        None \<Rightarrow> []
      | Some [] \<Rightarrow> []
      | Some (v # _) \<Rightarrow> v)"

definition Header_Set :: "Header \<Rightarrow> string \<Rightarrow> string \<Rightarrow> Header" where
  "Header_Set h key v = h(CanonicalMIMEHeaderKey key \<mapsto> [v])"

definition Header_Del :: "Header \<Rightarrow> string \<Rightarrow> Header" where
  "Header_Del h key = h(CanonicalMIMEHeaderKey key := None)"

record Request =
  Header :: Header
  RemoteAddr :: string

text \<open>
  An \<open>http.ResponseWriter\<close> of the standard server: the header map being built, the
  status line once written together with the headers that went out with it (the first
  \<open>WriteHeader\<close> wins; later changes of the header map are not sent), and the body
  bytes written so far. A write before any \<open>WriteHeader\<close> sends status 200 first.
\<close>

record ResponseWriter =
  w_header :: Header
  w_sent :: "(nat \<times> Header) option"
  w_body :: string

definition WriteHeader :: "ResponseWriter \<Rightarrow> nat \<Rightarrow> ResponseWriter" where
  "WriteHeader w code =
     (case w_sent w of
        None \<Rightarrow> w\<lparr>w_sent := Some (code, w_header w)\<rparr>
      | Some _ \<Rightarrow> w)"

definition Write :: "ResponseWriter \<Rightarrow> string \<Rightarrow> ResponseWriter" where
  "Write w bs = (let w' = WriteHeader w 200 in w'\<lparr>w_body := w_body w' @ bs\<rparr>)"

definition SetHeader :: "ResponseWriter \<Rightarrow> string \<Rightarrow> string \<Rightarrow> ResponseWriter" where
  "SetHeader w key v = w\<lparr>w_header := Header_Set (w_header w) key v\<rparr>"

text \<open>
  \<open>http.Error(w, error, code)\<close>: drops Content-Length, sets a plain-text content type
  and the nosniff option, writes the status, then the error text and a newline.
\<close>

definition http_Error :: "ResponseWriter \<Rightarrow> string \<Rightarrow> nat \<Rightarrow> ResponseWriter" where
  "http_Error w err code =
     (let w1 = w\<lparr>w_header := Header_Del (w_header w) ''Content-Length''\<rparr>;
          w2 = SetHeader w1 ''Content-Type'' ''text/plain; charset=utf-8'';
          w3 = SetHeader w2 ''X-Content-Type-Options'' ''nosniff'';
          w4 = WriteHeader w3 code
      in Write w4 (err @ [CHR 0x0A]))"

type_synonym Handler = "ResponseWriter \<Rightarrow> Request \<Rightarrow> ResponseWriter"

subsection \<open>The rate limiter\<close>

record RateLimitConfig =
  Enabled :: bool
  PublicRPS :: int
  PublicBurst :: int
  AuthRPS :: int
  AuthBurst :: int

text \<open>
  \<open>redis_rate.Limit\<close> and \<open>redis_rate.Result\<close>; the durations are in nanoseconds, as
  \<open>time.Duration\<close> is.
\<close>

record redis_Limit =
  Rate :: int
  Burst :: int
  Period :: int

record redis_Result =
  Allowed :: int
  Remaining :: int
  RetryAfter :: int
  ResetAfter :: int

definition Millisecond :: int where
  "Millisecond = 1000000"

definition Second :: int where
  "Second = 1000000000"

text \<open>
  The limiter holds its configuration and the Counter Store. The store is outside the
  program: \<open>limiter\<close> stands for what \<open>Allow\<close> answers for a key and a limit at the
  time of the call, an error (\<open>Inl\<close>) or a result.
\<close>

record RateLimiter =
  limiter :: "string \<Rightarrow> redis_Limit \<Rightarrow> string + redis_Result"
  cfg :: RateLimitConfig

text \<open>
  \<open>getClientIP\<close>. Indexing \<open>parts[0]\<close> panics in Go when the slice is empty; the
  model returns \<open>None\<close> there.
\<close>

definition getClientIP :: "Request \<Rightarrow> string option" where
  "getClientIP r =
     (let xff = Header_Get (Header r) ''X-Forwarded-For'' in
      if xff \<noteq> [] then
        (case Split xff CHR '','' of
           [] \<Rightarrow> None
         | p # _ \<Rightarrow> Some (TrimSpace p))
      else
        let xrp = Header_Get (Header r) ''X-Real-IP'' in
        if xrp \<noteq> [] then Some xrp
        else
          let addr = RemoteAddr r in
          if Contains addr CHR '':'' then
            (let lastColon = LastIndex addr CHR '':'' in
             if lastColon \<noteq> -1 then Some (take (nat lastColon) addr) else Some addr)
          else Some addr)"

definition getLimit :: "RateLimiter \<Rightarrow> Request \<Rightarrow> (string \<times> redis_Limit) option" where
  "getLimit rl r =
     (let authHeader = Header_Get (Header r) ''Authorization'' in
      if authHeader \<noteq> [] then
        Some (''rate_limit:auth:'' @ authHeader,
              \<lparr>Rate = AuthRPS (cfg rl), Burst = AuthBurst (cfg rl), Period = Second\<rparr>)
      else
        (case getClientIP r of
           None \<Rightarrow> None
         | Some ip \<Rightarrow>
             Some (''rate_limit:ip:'' @ ip,
                   \<lparr>Rate = PublicRPS (cfg rl), Burst = PublicBurst (cfg rl), Period = Second\<rparr>)))"

text \<open>
  \<open>Limit\<close> wraps the next handler. Go's integer division truncates towards zero
  (\<open>sdiv\<close>).
\<close>

definition Limit :: "RateLimiter \<Rightarrow> Handler \<Rightarrow> ResponseWriter \<Rightarrow> Request \<Rightarrow> ResponseWriter option" where
  "Limit rl next w r =
     (if \<not> Enabled (cfg rl) then Some (next w r)
      else
        (case getLimit rl r of
           None \<Rightarrow> None
         | Some (key, limit) \<Rightarrow>
             (case limiter rl key limit of
                Inl err \<Rightarrow> Some (next w r)
              | Inr res \<Rightarrow>
                  (let w1 = SetHeader w ''X-RateLimit-Limit'' (Sprintf_d (Rate limit));
                       w2 = SetHeader w1 ''X-RateLimit-Remaining'' (Sprintf_d (Remaining res));
                       w3 = SetHeader w2 ''X-RateLimit-Reset''
                              (Sprintf_d (ResetAfter res sdiv Millisecond))
                   in if Allowed res = 0 then
                        (let w4 = SetHeader w3 ''Retry-After''
                                    (Sprintf_d (RetryAfter res sdiv Second))
                         in Some (http_Error w4 ''Too Many Requests'' 429))
                      else Some (next w3 r)))))"

subsection \<open>The credential validator\<close>

text \<open>
  Errors are compared by identity in the code. \<open>ErrInvalidToken\<close> and
  \<open>ErrExpiredToken\<close> are the two sentinels of package middleware; an error made by the
  JWT library, by \<open>status.Error\<close> or by the backend is never identical to either.
\<close>

datatype jwt_error =
  ErrTokenMalformed | ErrTokenUnverifiable | ErrTokenSignatureInvalid | ErrTokenInvalidClaims

datatype go_error =
  ErrInvalidToken
| ErrExpiredToken
| JWTError jwt_error
| StatusError "32 word" string
| BackendError string

datatype SigningMethod = SigningMethodHMAC | SigningMethodOther

text \<open>
  \<open>JWTClaims\<close>: the merchant id and, of the registered claims, the two that the
  library's validator reads by default. A \<open>NumericDate\<close> is a point on the clock's
  integer time line; \<open>None\<close> is a nil pointer (the claim is absent).
\<close>

record JWTClaims =
  MerchantID :: string
  ExpiresAt :: "int option"
  NotBefore :: "int option"

record jwt_Token =
  Method :: SigningMethod
  Claims :: JWTClaims
  Valid :: bool

text \<open>
  What lies outside the program: the decoding of a token string into its header and
  claims (\<open>None\<close> when the string is malformed), whether the signature of the string
  verifies under a key with the token's method, and the two readings of \<open>time.Now()\<close>,
  the first by the library's validator, the second by \<open>ValidateToken\<close> after the
  library has returned.
\<close>

record jwt_Env =
  ParseUnverified :: "string \<Rightarrow> jwt_Token option"
  Verify :: "SigningMethod \<Rightarrow> string \<Rightarrow> string \<Rightarrow> bool"
  NowParse :: int
  NowCheck :: int

text \<open>
  The library's claims validator with its default options (golang-jwt v5, the version
  \<open>go.mod\<close> requires): an expiry, when present, must lie after now; a not-before,
  when present, must not lie after now.
\<close>

definition Validate :: "int \<Rightarrow> JWTClaims \<Rightarrow> bool" where
  "Validate now c =
     ((case ExpiresAt c of None \<Rightarrow> True | Some expiry \<Rightarrow> now < expiry) \<and>
      (case NotBefore c of None \<Rightarrow> True | Some nbf \<Rightarrow> nbf \<le> now))"

text \<open>
  \<open>jwt.ParseWithClaims\<close> of the library, with the default parser: decode, ask the key
  function for the key, verify the signature, validate the claims, and only then mark the
  token valid. Every failure is an error of the library's own, also when the key function
  failed (its error is wrapped).
\<close>

definition ParseWithClaims ::
  "jwt_Env \<Rightarrow> string \<Rightarrow> (jwt_Token \<Rightarrow> go_error + string) \<Rightarrow> go_error + jwt_Token" where
  "ParseWithClaims env tokenString keyFunc =
     (case ParseUnverified env tokenString of
        None \<Rightarrow> Inl (JWTError ErrTokenMalformed)
      | Some token \<Rightarrow>
          (case keyFunc token of
             Inl e \<Rightarrow> Inl (JWTError ErrTokenUnverifiable)
           | Inr key \<Rightarrow>
               if \<not> Verify env (Method token) tokenString key
               then Inl (JWTError ErrTokenSignatureInvalid)
               else if \<not> Validate (NowParse env) (Claims token)
               then Inl (JWTError ErrTokenInvalidClaims)
               else Inr (token\<lparr>Valid := True\<rparr>)))"

record JWTHelper =
  secretKey :: string

definition ValidateToken :: "JWTHelper \<Rightarrow> jwt_Env \<Rightarrow> string \<Rightarrow> go_error + JWTClaims" where
  "ValidateToken h env tokenString =
     (case ParseWithClaims env tokenString
             (\<lambda>token. if Method token \<noteq> SigningMethodHMAC then Inl ErrInvalidToken
                      else Inr (secretKey h)) of
        Inl err \<Rightarrow> Inl err
      | Inr token \<Rightarrow>
          (let claims = Claims token in
           if \<not> Valid token then Inl ErrInvalidToken
           else (case ExpiresAt claims of
                   None \<Rightarrow> Inr claims
                 | Some expiry \<Rightarrow>
                     if expiry < NowCheck env then Inl ErrExpiredToken else Inr claims)))"

definition ExtractMerchantID :: "JWTHelper \<Rightarrow> jwt_Env \<Rightarrow> string \<Rightarrow> go_error + string" where
  "ExtractMerchantID h env tokenString =
     (case ValidateToken h env tokenString of
        Inl err \<Rightarrow> Inl err
      | Inr claims \<Rightarrow> Inr (MerchantID claims))"

subsection \<open>The auth interceptor\<close>

text \<open>
  gRPC metadata maps lower-case keys to lists of values. A call context carries incoming
  metadata, outgoing metadata, both or neither. \<open>FromIncomingContext\<close> and
  \<open>FromOutgoingContext\<close> return the metadata and whether there was any.
\<close>

type_synonym MD = "string \<rightharpoonup> string list"

record Ctx =
  Incoming :: "MD option"
  Outgoing :: "MD option"

definition FromIncomingContext :: "Ctx \<Rightarrow> MD \<times> bool" where
  "FromIncomingContext ctx = (case Incoming ctx of None \<Rightarrow> (Map.empty, False) | Some md \<Rightarrow> (md, True))"

definition FromOutgoingContext :: "Ctx \<Rightarrow> MD \<times> bool" where
  "FromOutgoingContext ctx = (case Outgoing ctx of None \<Rightarrow> (Map.empty, False) | Some md \<Rightarrow> (md, True))"

definition NewOutgoingContext :: "Ctx \<Rightarrow> MD \<Rightarrow> Ctx" where
  "NewOutgoingContext ctx md = ctx\<lparr>Outgoing := Some md\<rparr>"

definition MD_Get :: "MD \<Rightarrow> string \<Rightarrow> string list" where
  "MD_Get md k = (case md k of None \<Rightarrow> [] | Some vs \<Rightarrow> vs)"

definition Pairs :: "string \<Rightarrow> string \<Rightarrow> MD" where
  "Pairs k v = [k \<mapsto> [v]]"

definition Join :: "MD \<Rightarrow> MD \<Rightarrow> MD" where
  "Join a b =
     (\<lambda>k. case a k of
             None \<Rightarrow> b k
           | Some xs \<Rightarrow> (case b k of None \<Rightarrow> Some xs | Some ys \<Rightarrow> Some (xs @ ys)))"

definition Unauthenticated :: "32 word" where
  "Unauthenticated = 16"

record AuthInterceptor =
  jwtHelper :: JWTHelper
  publicEndpoints :: "string \<rightharpoonup> bool"

text \<open>Indexing a Go \<open>map[string]bool\<close>: \<open>false\<close> for a key that is not there.\<close>

definition isPublic :: "(string \<rightharpoonup> bool) \<Rightarrow> string \<Rightarrow> bool" where
  "isPublic m k = (case m k of None \<Rightarrow> False | Some b \<Rightarrow> b)"

text \<open>
  The metadata the interceptor reads (incoming, or outgoing when there is no incoming
  metadata or it is empty), and the authorization values it finds there.
\<close>

definition requestMD :: "Ctx \<Rightarrow> MD \<times> bool" where
  "requestMD ctx =
     (let (md, ok) = FromIncomingContext ctx in
      if \<not> ok \<or> md = Map.empty then FromOutgoingContext ctx else (md, ok))"

definition authHeadersOf :: "MD \<Rightarrow> string list" where
  "authHeadersOf md =
     (let authHeaders = MD_Get md ''authorization'' in
      if authHeaders = [] then MD_Get md ''grpcgateway-authorization'' else authHeaders)"

text \<open>
  \<open>Unary\<close>: the interceptor around one call. The invoker is the rest of the call: it
  gets the context, the method and the request, and returns an error or nil
  (\<open>None\<close>).
\<close>

definition Unary ::
  "AuthInterceptor \<Rightarrow> jwt_Env \<Rightarrow> Ctx \<Rightarrow> string \<Rightarrow> 'q \<Rightarrow>
   (Ctx \<Rightarrow> string \<Rightarrow> 'q \<Rightarrow> go_error option) \<Rightarrow> go_error option" where
  "Unary a env ctx method req invoker =
     (if isPublic (publicEndpoints a) method then invoker ctx method req
      else
        (let (md, ok) = requestMD ctx in
         if \<not> ok \<or> md = Map.empty
         then Some (StatusError Unauthenticated ''missing authorization header'')
         else
           (case authHeadersOf md of
              [] \<Rightarrow> Some (StatusError Unauthenticated ''missing authorization header'')
            | authHeader # _ \<Rightarrow>
                if \<not> HasPrefix authHeader ''Bearer ''
                then Some (StatusError Unauthenticated ''invalid authorization header format'')
                else
                  (let token = TrimPrefix authHeader ''Bearer '' in
                   case ExtractMerchantID (jwtHelper a) env token of
                     Inl err \<Rightarrow>
                       if err = ErrExpiredToken
                       then Some (StatusError Unauthenticated ''token has expired'')
                       else Some (StatusError Unauthenticated ''invalid token'')
                   | Inr merchantID \<Rightarrow>
                       (let outgoingMD = Pairs ''x-merchant-id'' merchantID;
                            outgoingMD' =
                              (case FromOutgoingContext ctx of
                                 (existingMD, True) \<Rightarrow> Join existingMD outgoingMD
                               | (_, False) \<Rightarrow> outgoingMD)
                        in invoker (NewOutgoingContext ctx outgoingMD') method req)))))"

subsection \<open>The endpoint classifier\<close>

text \<open>
  A method's options are a nil interface (\<open>None\<close>), a nil pointer to options, or
  options in which the \<open>public_endpoint\<close> extension is set to a value or not set. The
  extension is declared in the protocol repository as a boolean; \<open>OtherValue\<close> stands
  for a value on which the type assertion to \<open>bool\<close> fails.
\<close>

datatype ExtValue = BoolValue bool | OtherValue

datatype MethodOptions = NilMethodOptions | MethodOptions "ExtValue option"

record MethodDescriptor =
  Name :: string
  Options :: "MethodOptions option"

record ServiceDescriptor =
  FullName :: string
  Methods :: "MethodDescriptor list"

record FileDescriptor =
  Services :: "ServiceDescriptor list"

text \<open>
  \<open>proto.HasExtension\<close> is false on a nil message; \<open>proto.GetExtension\<close> is the
  value set, or the default of a boolean extension.
\<close>

fun HasExtension :: "MethodOptions \<Rightarrow> bool" where
  "HasExtension NilMethodOptions = False"
| "HasExtension (MethodOptions None) = False"
| "HasExtension (MethodOptions (Some v)) = True"

fun GetExtension :: "MethodOptions \<Rightarrow> ExtValue" where
  "GetExtension (MethodOptions (Some v)) = v"
| "GetExtension _ = BoolValue False"

definition isPublicEndpoint :: "MethodDescriptor \<Rightarrow> bool" where
  "isPublicEndpoint method =
     (case Options method of
        None \<Rightarrow> False
      | Some opts \<Rightarrow>
          if HasExtension opts then
            (case GetExtension opts of
               BoolValue val \<Rightarrow> val
             | OtherValue \<Rightarrow> False)
          else False)"

text \<open>The loops of \<open>DiscoverPublicEndpoints\<close> over methods, services and files.\<close>

definition fullMethodName :: "ServiceDescriptor \<Rightarrow> MethodDescriptor \<Rightarrow> string" where
  "fullMethodName service method = ''/'' @ FullName service @ ''/'' @ Name method"

fun scanMethods ::
  "ServiceDescriptor \<Rightarrow> MethodDescriptor list \<Rightarrow> (string \<rightharpoonup> bool) \<Rightarrow> (string \<rightharpoonup> bool)" where
  "scanMethods service [] pe = pe"
| "scanMethods service (method # ms) pe =
     scanMethods service ms
       (if isPublicEndpoint method then pe(fullMethodName service method \<mapsto> True) else pe)"

fun scanServices :: "ServiceDescriptor list \<Rightarrow> (string \<rightharpoonup> bool) \<Rightarrow> (string \<rightharpoonup> bool)" where
  "scanServices [] pe = pe"
| "scanServices (service # ss) pe = scanServices ss (scanMethods service (Methods service) pe)"

fun scanFiles :: "FileDescriptor list \<Rightarrow> (string \<rightharpoonup> bool) \<Rightarrow> (string \<rightharpoonup> bool)" where
  "scanFiles [] pe = pe"
| "scanFiles (fd # fds) pe = scanFiles fds (scanServices (Services fd) pe)"

text \<open>
  \<open>DiscoverPublicEndpoints\<close> under its lock: the registered files and the cache
  (\<open>None\<close> while nil) go in, the endpoints and the new cache come out.
\<close>

definition DiscoverPublicEndpoints ::
  "FileDescriptor list \<Rightarrow> (string \<rightharpoonup> bool) option \<Rightarrow>
   (string \<rightharpoonup> bool) \<times> (string \<rightharpoonup> bool) option" where
  "DiscoverPublicEndpoints files cache =
     (case cache of
        Some cached \<Rightarrow> (cached, cache)
      | None \<Rightarrow> (let pe = scanFiles files Map.empty in (pe, Some pe)))"

subsection \<open>The response envelope marshaler\<close>

text \<open>
  A JSON document as a tree. The members of an object are listed in the order in which
  they are written.
\<close>

datatype json =
  JNull | JBool bool | JNumber rat | JString string | JArray "json list"
| JObject "(string \<times> json) list"

text \<open>
  An \<open>interface{}\<close> value, by the dynamic types the code tells apart: nil, \<open>int\<close>,
  \<open>int32\<close>, \<open>float64\<close> (a finite one, as a rational), \<open>string\<close>, a
  \<open>codes.Code\<close> (the RPC library's own code type, an unsigned 32-bit integer), and a
  value of any other type. The argument of \<open>Marshal\<close> is a \<open>map[string]interface{}\<close>, a
  pointer to a \<open>status.Status\<close> (\<open>None\<close> when nil), a \<open>map[string]string\<close> (a
  string-keyed map of another Go type, on which the type assertion to
  \<open>map[string]interface{}\<close> fails), or a value of any other type.
\<close>

datatype 'o any =
  ANil | AInt int | AInt32 int | AFloat64 rat | AString string | ACode "32 word" | AOther 'o

record rpc_Status =
  Code :: int
  Message :: string

datatype 'o GoValue =
  VMap "string \<rightharpoonup> 'o any" | VStatus "rpc_Status option" | VStringMap "string \<rightharpoonup> string"
| VOther 'o

text \<open>A call fails with a returned error or with a panic (a nil pointer dereference).\<close>

datatype failure = Error string | Panic

text \<open>
  The embedded \<open>runtime.JSONPb\<close> marshaler belongs to the gateway library; the record
  holds its \<open>Marshal\<close> method, which returns an error or a JSON document.
\<close>

record 'o CustomMarshaler =
  JSONPb_Marshal :: "'o GoValue \<Rightarrow> string + json"

text \<open>
  \<open>runtime.HTTPStatusFromCode\<close> of the gateway library, on a \<open>codes.Code\<close> (an
  unsigned 32-bit integer): the standard table from RPC codes to HTTP statuses.
\<close>

definition HTTPStatusFromCode :: "32 word \<Rightarrow> int" where
  "HTTPStatusFromCode code =
     (if code = 0 then 200
      else if code = 1 then 499
      else if code = 2 then 500
      else if code = 3 then 400
      else if code = 4 then 504
      else if code = 5 then 404
      else if code = 6 then 409
      else if code = 7 then 403
      else if code = 16 then 401
      else if code = 8 then 429
      else if code = 9 then 400
      else if code = 10 then 409
      else if code = 11 then 400
      else if code = 12 then 501
      else if code = 13 then 500
      else if code = 14 then 503
      else if code = 15 then 500
      else 500)"

text \<open>
  Go's conversions: an integer to \<open>codes.Code\<close> keeps the low 32 bits; a
  \<open>float64\<close> to \<open>int\<close> drops the fraction (exact for a value within the range of
  \<open>int\<close>).
\<close>

definition toCode :: "int \<Rightarrow> 32 word" where
  "toCode n = word_of_int n"

definition float64ToInt :: "rat \<Rightarrow> int" where
  "float64ToInt q = (if 0 \<le> q then \<lfloor>q\<rfloor> else \<lceil>q\<rceil>)"

text \<open>
  \<open>json.Marshal\<close> of the standard library on a \<open>map[string]interface{}\<close>, given by
  its entries: the members are written in the order of their keys, and the first value
  that cannot be encoded fails the call. \<open>enc\<close> is what the encoder makes of a value of
  any other type (an error for a channel or a function).
\<close>

fun jsonOf :: "('o \<Rightarrow> string + json) \<Rightarrow> 'o any \<Rightarrow> string + json" where
  "jsonOf enc ANil = Inr JNull"
| "jsonOf enc (AInt n) = Inr (JNumber (of_int n))"
| "jsonOf enc (AInt32 n) = Inr (JNumber (of_int n))"
| "jsonOf enc (AFloat64 q) = Inr (JNumber q)"
| "jsonOf enc (AString s) = Inr (JString s)"
| "jsonOf enc (ACode w) = Inr (JNumber (of_nat (unat w)))"
| "jsonOf enc (AOther x) = enc x"

fun encodeMembers ::
  "('o \<Rightarrow> string + json) \<Rightarrow> (string \<times> 'o any) list \<Rightarrow> string + (string \<times> json) list" where
  "encodeMembers enc [] = Inr []"
| "encodeMembers enc ((k, v) # kvs) =
     (case jsonOf enc v of
        Inl e \<Rightarrow> Inl e
      | Inr j \<Rightarrow>
          (case encodeMembers enc kvs of
             Inl e \<Rightarrow> Inl e
           | Inr ms \<Rightarrow> Inr ((k, j) # ms)))"

definition json_Marshal ::
  "('o \<Rightarrow> string + json) \<Rightarrow> (string \<times> 'o any) list \<Rightarrow> failure + json" where
  "json_Marshal enc entries =
     (case encodeMembers enc (sort_key fst entries) of
        Inl e \<Rightarrow> Inl (Error e)
      | Inr ms \<Rightarrow> Inr (JObject ms))"

text \<open>
  The first test of \<open>Marshal\<close>: the value is a \<open>map[string]interface{}\<close> with a
  \<open>code\<close> and a \<open>message\<close> entry.
\<close>

definition errorEntries :: "'o GoValue \<Rightarrow> ('o any \<times> 'o any) option" where
  "errorEntries v =
     (case v of
        VMap errMap \<Rightarrow>
          (case errMap ''code'' of
             None \<Rightarrow> None
           | Some code \<Rightarrow>
               (case errMap ''message'' of
                  None \<Rightarrow> None
                | Some msg \<Rightarrow> Some (code, msg)))
      | _ \<Rightarrow> None)"

definition Marshal ::
  "'o CustomMarshaler \<Rightarrow> ('o \<Rightarrow> string + json) \<Rightarrow> 'o GoValue \<Rightarrow> failure + json" where
  "Marshal c enc v =
     (case errorEntries v of
        Some (code, msg) \<Rightarrow>
          (let statusCode =
                 (case code of
                    AInt val \<Rightarrow> HTTPStatusFromCode (toCode val)
                  | AFloat64 val \<Rightarrow> HTTPStatusFromCode (toCode (float64ToInt val))
                  | AInt32 val \<Rightarrow> HTTPStatusFromCode (toCode val)
                  | _ \<Rightarrow> 200)
           in json_Marshal enc
                [(''status'', AInt statusCode), (''message'', msg), (''data'', ANil)])
      | None \<Rightarrow>
          (case v of
             VStatus None \<Rightarrow> Inl Panic
           | VStatus (Some s) \<Rightarrow>
               (let statusCode = HTTPStatusFromCode (toCode (Code s))
                in json_Marshal enc
                     [(''status'', AInt statusCode), (''message'', AString (Message s)),
                      (''data'', ANil)])
           | _ \<Rightarrow>
               (case JSONPb_Marshal c v of
                  Inl err \<Rightarrow> Inl (Error err)
                | Inr data \<Rightarrow>
                    Inr (JObject [(''status'', JNumber 200), (''message'', JString ''success''),
                                  (''data'', data)]))))"

subsection \<open>Notions used to state the properties, and example inputs\<close>

text \<open>The three rate-limit headers carry the limit, the remaining budget and the reset time in milliseconds.\<close>

definition rateHeaders :: "Header \<Rightarrow> redis_Limit \<Rightarrow> redis_Result \<Rightarrow> bool" where
  "rateHeaders h limit res =
     (Header_Get h ''X-RateLimit-Limit'' = Sprintf_d (Rate limit) \<and>
      Header_Get h ''X-RateLimit-Remaining'' = Sprintf_d (Remaining res) \<and>
      Header_Get h ''X-RateLimit-Reset'' = Sprintf_d (ResetAfter res sdiv Millisecond))"

text \<open>
  Example inputs: the default configuration, a Counter Store that is down, one that denies
  and one that allows, some requests, a fresh response writer and a next handler.
\<close>

definition exampleConfig :: RateLimitConfig where
  "exampleConfig = \<lparr>Enabled = True, PublicRPS = 10, PublicBurst = 20, AuthRPS = 100, AuthBurst = 200\<rparr>"

definition storeDown :: "string \<Rightarrow> redis_Limit \<Rightarrow> string + redis_Result" where
  "storeDown key limit = Inl ''connection refused''"

definition storeDeny :: "string \<Rightarrow> redis_Limit \<Rightarrow> string + redis_Result" where
  "storeDeny key limit =
     Inr \<lparr>Allowed = 0, Remaining = 0, RetryAfter = 1500000000, ResetAfter = 2500000000\<rparr>"

definition storeAllow :: "string \<Rightarrow> redis_Limit \<Rightarrow> string + redis_Result" where
  "storeAllow key limit =
     Inr \<lparr>Allowed = 1, Remaining = 9, RetryAfter = -1, ResetAfter = 100000000\<rparr>"

definition anonymousRequest :: Request where
  "anonymousRequest = \<lparr>Header = Map.empty, RemoteAddr = ''10.0.0.1:5555''\<rparr>"

definition bearerRequest :: Request where
  "bearerRequest = \<lparr>Header = [''Authorization'' \<mapsto> [''Bearer abc'']], RemoteAddr = ''10.0.0.1:5555''\<rparr>"

definition forwardedRequest :: Request where
  "forwardedRequest =
     \<lparr>Header = [''X-Forwarded-For'' \<mapsto> ['' 203.0.113.7 , 10.0.0.1''], ''X-Real-Ip'' \<mapsto> [''10.0.0.2'']],
      RemoteAddr = ''10.0.0.1:5555''\<rparr>"

definition realIPRequest :: Request where
  "realIPRequest = \<lparr>Header = [''X-Real-Ip'' \<mapsto> [''10.0.0.2'']], RemoteAddr = ''10.0.0.1:5555''\<rparr>"

definition blankForwardedRequest :: Request where
  "blankForwardedRequest =
     \<lparr>Header = [''X-Forwarded-For'' \<mapsto> ['', 203.0.113.7''], ''X-Real-Ip'' \<mapsto> [''10.0.0.2'']],
      RemoteAddr = ''10.0.0.1:5555''\<rparr>"

definition bareRequest :: Request where
  "bareRequest = \<lparr>Header = Map.empty, RemoteAddr = ''localhost''\<rparr>"

definition freshWriter :: ResponseWriter where
  "freshWriter = \<lparr>w_header = Map.empty, w_sent = None, w_body = []\<rparr>"

definition nextOK :: Handler where
  "nextOK w r = Write w ''ok''"

text \<open>
  Example inputs for the interceptor: a registry with one public endpoint, a call context
  with no metadata, and an invoker that succeeds.
\<close>

definition exampleInterceptor :: AuthInterceptor where
  "exampleInterceptor =
     \<lparr>jwtHelper = \<lparr>secretKey = ''secret''\<rparr>,
      publicEndpoints = [''/user.v1.MerchantService/LoginMerchant'' \<mapsto> True]\<rparr>"

definition noMetadata :: Ctx where
  "noMetadata = \<lparr>Incoming = None, Outgoing = None\<rparr>"

definition basicAuthCtx :: Ctx where
  "basicAuthCtx = \<lparr>Incoming = Some [''authorization'' \<mapsto> [''Basic dXNlcjpwdw=='']], Outgoing = None\<rparr>"

definition invokerOK :: "Ctx \<Rightarrow> string \<Rightarrow> unit \<Rightarrow> go_error option" where
  "invokerOK ctx method req = None"

text \<open>
  An example environment: the secret is "secret", the library's clock reads 2000 and the
  second reading is 2001; one token string decodes to an HMAC token that expired at 1000,
  another to one that expires at 3000, and signatures verify under the secret.
\<close>

definition exampleParse :: "string \<Rightarrow> jwt_Token option" where
  "exampleParse s =
     (if s = ''expired.jwt.token'' then
        Some \<lparr>Method = SigningMethodHMAC,
              Claims = \<lparr>MerchantID = ''merchant-1'', ExpiresAt = Some 1000, NotBefore = None\<rparr>,
              Valid = False\<rparr>
      else if s = ''fresh.jwt.token'' then
        Some \<lparr>Method = SigningMethodHMAC,
              Claims = \<lparr>MerchantID = ''merchant-1'', ExpiresAt = Some 3000, NotBefore = None\<rparr>,
              Valid = False\<rparr>
      else None)"

definition exampleVerify :: "SigningMethod \<Rightarrow> string \<Rightarrow> string \<Rightarrow> bool" where
  "exampleVerify m s key = (m = SigningMethodHMAC \<and> key = ''secret'')"

definition exampleEnv :: jwt_Env where
  "exampleEnv =
     \<lparr>ParseUnverified = exampleParse, Verify = exampleVerify, NowParse = 2000, NowCheck = 2001\<rparr>"

definition expiredTokenCtx :: Ctx where
  "expiredTokenCtx =
     \<lparr>Incoming = Some [''authorization'' \<mapsto> [''Bearer expired.jwt.token'']], Outgoing = None\<rparr>"

text \<open>
  A JSON document is the response envelope when it is an object with exactly the three
  keys status, message and data. Two objects are the same JSON object when they have the
  same members, in whatever order they are written.
\<close>

definition isEnvelope :: "json \<Rightarrow> bool" where
  "isEnvelope j =
     (case j of
        JObject ms \<Rightarrow>
          distinct (map fst ms) \<and> set (map fst ms) = {''status'', ''message'', ''data''}
      | _ \<Rightarrow> False)"


text \<open>
  A body can hold a JSON object only if its text begins, after JSON white space, with an
  opening brace.
\<close>

definition jsonSpace :: "char \<Rightarrow> bool" where
  "jsonSpace c = (c \<in> set [CHR 0x20, CHR 0x09, CHR 0x0A, CHR 0x0D])"

definition JSONObjectText :: "string \<Rightarrow> bool" where
  "JSONObjectText s = (case dropWhile jsonSpace s of [] \<Rightarrow> False | c # _ \<Rightarrow> c = CHR 0x7B)"

text \<open>
  The status \<open>Marshal\<close> gives a map whose \<open>code\<close> entry is \<open>code\<close>.
\<close>

definition mapStatus :: "'o any \<Rightarrow> int" where
  "mapStatus code =
     (case code of
        AInt val \<Rightarrow> HTTPStatusFromCode (toCode val)
      | AFloat64 val \<Rightarrow> HTTPStatusFromCode (toCode (float64ToInt val))
      | AInt32 val \<Rightarrow> HTTPStatusFromCode (toCode val)
      | _ \<Rightarrow> 200)"

text \<open>
  Example inputs: registered files with one service, a marshaler whose embedded JSONPb
  renders every payload as \<open>{"foo":"bar"}\<close>, one whose embedded JSONPb renders it as
  \<open>{"code":"5","message":"merchant not found"}\<close>, and an encoder that knows no other
  types.
\<close>

definition exampleFiles :: "FileDescriptor list" where
  "exampleFiles =
     [\<lparr>Services =
         [\<lparr>FullName = ''user.v1.MerchantService'',
           Methods =
             [\<lparr>Name = ''LoginMerchant'', Options = Some (MethodOptions (Some (BoolValue True)))\<rparr>,
              \<lparr>Name = ''GetMerchant'', Options = Some NilMethodOptions\<rparr>,
              \<lparr>Name = ''UpdateMerchant'', Options = Some (MethodOptions (Some (BoolValue False)))\<rparr>,
              \<lparr>Name = ''DeleteMerchant'', Options = Some (MethodOptions None)\<rparr>,
              \<lparr>Name = ''Ping'', Options = None\<rparr>]\<rparr>]\<rparr>]"

definition examplePb :: "unit GoValue \<Rightarrow> string + json" where
  "examplePb v = Inr (JObject [(''foo'', JString ''bar'')])"

definition exampleMarshaler :: "unit CustomMarshaler" where
  "exampleMarshaler = \<lparr>JSONPb_Marshal = examplePb\<rparr>"

definition codeMessagePb :: "unit GoValue \<Rightarrow> string + json" where
  "codeMessagePb v =
     Inr (JObject [(''code'', JString ''5''), (''message'', JString ''merchant not found'')])"

definition codeMessageMarshaler :: "unit CustomMarshaler" where
  "codeMessageMarshaler = \<lparr>JSONPb_Marshal = codeMessagePb\<rparr>"

definition noOther :: "unit \<Rightarrow> string + json" where
  "noOther x = Inl ''json: unsupported type''"

section \<open>Properties\<close>

subsection \<open>Strings and headers\<close>

lemma Split_first: "\<exists>ps. Split s c = takeWhile (\<lambda>x. x \<noteq> c) s # ps"
  by (induction s) (auto split: list.splits)

lemma LastIndex_absent: "c \<notin> set s \<Longrightarrow> LastIndex s c = -1"
  by (induction s) (auto simp: Let_def)

lemma LastIndex_present:
  "c \<in> set s \<Longrightarrow>
   0 \<le> LastIndex s c \<and> (\<exists>port. s = take (nat (LastIndex s c)) s @ c # port \<and> c \<notin> set port)"
proof (induction s)
  case Nil
  then show ?case by simp
next
  case (Cons x xs)
  show ?case
  proof (cases "c \<in> set xs")
    case True
    with Cons.IH obtain port where
      nn: "0 \<le> LastIndex xs c" and
      eq: "xs = take (nat (LastIndex xs c)) xs @ c # port" and
      np: "c \<notin> set port"
      by blast
    have n: "nat (LastIndex xs c + 1) = Suc (nat (LastIndex xs c))"
      using nn by simp
    have "x # xs = take (nat (LastIndex (x # xs) c)) (x # xs) @ c # port"
      using nn eq by (simp add: Let_def n)
    with nn np show ?thesis by (auto simp: Let_def)
  next
    case False
    with Cons.prems have xc: "x = c" by simp
    from False have "LastIndex xs c = -1" by (rule LastIndex_absent)
    with xc False show ?thesis by (simp add: Let_def)
  qed
qed

lemma canonical_names:
  "CanonicalMIMEHeaderKey ''X-RateLimit-Limit'' = ''X-Ratelimit-Limit''"
  "CanonicalMIMEHeaderKey ''X-RateLimit-Remaining'' = ''X-Ratelimit-Remaining''"
  "CanonicalMIMEHeaderKey ''X-RateLimit-Reset'' = ''X-Ratelimit-Reset''"
  "CanonicalMIMEHeaderKey ''Retry-After'' = ''Retry-After''"
  "CanonicalMIMEHeaderKey ''Content-Length'' = ''Content-Length''"
  "CanonicalMIMEHeaderKey ''Content-Type'' = ''Content-Type''"
  "CanonicalMIMEHeaderKey ''X-Content-Type-Options'' = ''X-Content-Type-Options''"
  "CanonicalMIMEHeaderKey ''Authorization'' = ''Authorization''"
  "CanonicalMIMEHeaderKey ''X-Forwarded-For'' = ''X-Forwarded-For''"
  "CanonicalMIMEHeaderKey ''X-Real-IP'' = ''X-Real-Ip''"
  by code_simp+

lemma Header_Get_Set:
  "Header_Get (Header_Set h k v) k' =
     (if CanonicalMIMEHeaderKey k' = CanonicalMIMEHeaderKey k then v else Header_Get h k')"
  by (simp add: Header_Get_def Header_Set_def)

lemma Header_Get_Del:
  "CanonicalMIMEHeaderKey k' \<noteq> CanonicalMIMEHeaderKey k \<Longrightarrow>
   Header_Get (Header_Del h k) k' = Header_Get h k'"
  by (simp add: Header_Get_def Header_Del_def)

lemma example_headers:
  "Header_Get (Header anonymousRequest) k = []"
  "Header_Get (Header bareRequest) k = []"
  "Header_Get (Header bearerRequest) ''Authorization'' = ''Bearer abc''"
  "Header_Get (Header forwardedRequest) ''X-Forwarded-For'' = '' 203.0.113.7 , 10.0.0.1''"
  "Header_Get (Header realIPRequest) ''X-Forwarded-For'' = []"
  "Header_Get (Header realIPRequest) ''X-Real-IP'' = ''10.0.0.2''"
  by (simp_all add: Header_Get_def canonical_names anonymousRequest_def bareRequest_def
      bearerRequest_def forwardedRequest_def realIPRequest_def)

lemma example_values:
  "Sprintf_d 10 = ''10''" "Sprintf_d 0 = ''0''" "Sprintf_d 2500 = ''2500''" "Sprintf_d 1 = ''1''"
  "Sprintf_d 9 = ''9''" "Sprintf_d 100 = ''100''"
  "(2500000000::int) sdiv Millisecond = 2500" "(1500000000::int) sdiv Second = 1"
  "(100000000::int) sdiv Millisecond = 100"
  "TrimSpace '' 203.0.113.7 '' = ''203.0.113.7''"
  by code_simp+

subsection \<open>The rate limiter\<close>

lemma getClientIP_total: "\<exists>ip. getClientIP r = Some ip"
proof -
  obtain ps where "Split (Header_Get (Header r) ''X-Forwarded-For'') CHR '','' =
      takeWhile (\<lambda>x. x \<noteq> CHR '','') (Header_Get (Header r) ''X-Forwarded-For'') # ps"
    using Split_first by blast
  then show ?thesis
    by (simp add: getClientIP_def Let_def)
qed

lemma getLimit_total: "\<exists>key limit. getLimit rl r = Some (key, limit)"
  using getClientIP_total [of r] by (auto simp: getLimit_def Let_def)

lemma example_limits:
  "getLimit \<lparr>limiter = f, cfg = exampleConfig\<rparr> anonymousRequest =
     Some (''rate_limit:ip:10.0.0.1'', \<lparr>Rate = 10, Burst = 20, Period = Second\<rparr>)"
  "getLimit \<lparr>limiter = f, cfg = exampleConfig\<rparr> bearerRequest =
     Some (''rate_limit:auth:Bearer abc'', \<lparr>Rate = 100, Burst = 200, Period = Second\<rparr>)"
  by (simp_all add: getLimit_def getClientIP_def example_headers Let_def exampleConfig_def
      Contains_def) (simp_all add: anonymousRequest_def)

lemma rateHeaders_after:
  "rateHeaders
     (w_header (SetHeader (SetHeader (SetHeader w ''X-RateLimit-Limit'' (Sprintf_d (Rate limit)))
        ''X-RateLimit-Remaining'' (Sprintf_d (Remaining res)))
        ''X-RateLimit-Reset'' (Sprintf_d (ResetAfter res sdiv Millisecond)))) limit res"
  by (simp add: rateHeaders_def SetHeader_def Header_Get_Set canonical_names)

lemma Limit_allowed:
  assumes "Enabled (cfg rl)" "getLimit rl r = Some (key, limit)" "limiter rl key limit = Inr res"
    "Allowed res \<noteq> 0"
  shows "\<exists>w'. Limit rl next w r = Some (next w' r) \<and> rateHeaders (w_header w') limit res \<and>
              w_sent w' = w_sent w \<and> w_body w' = w_body w"
proof -
  let ?w3 = "SetHeader (SetHeader (SetHeader w ''X-RateLimit-Limit'' (Sprintf_d (Rate limit)))
        ''X-RateLimit-Remaining'' (Sprintf_d (Remaining res)))
        ''X-RateLimit-Reset'' (Sprintf_d (ResetAfter res sdiv Millisecond))"
  have "Limit rl next w r = Some (next ?w3 r)"
    using assms by (simp add: Limit_def Let_def)
  moreover have "rateHeaders (w_header ?w3) limit res" by (rule rateHeaders_after)
  moreover have "w_sent ?w3 = w_sent w \<and> w_body ?w3 = w_body w" by (simp add: SetHeader_def)
  ultimately show ?thesis by blast
qed

lemma http_Error_body: "w_body (http_Error w err code) = w_body w @ err @ [CHR 0x0A]"
  by (simp add: http_Error_def Let_def Write_def WriteHeader_def SetHeader_def split: option.splits)

lemma http_Error_header:
  "w_header (http_Error w err code) =
     Header_Set (Header_Set (Header_Del (w_header w) ''Content-Length'')
        ''Content-Type'' ''text/plain; charset=utf-8'') ''X-Content-Type-Options'' ''nosniff''"
  by (simp add: http_Error_def Let_def Write_def WriteHeader_def SetHeader_def split: option.splits)

lemma http_Error_sent:
  "w_sent w = None \<Longrightarrow> w_sent (http_Error w err code) = Some (code, w_header (http_Error w err code))"
  by (simp add: http_Error_def Let_def Write_def WriteHeader_def SetHeader_def)

lemma http_Error_keeps:
  assumes "CanonicalMIMEHeaderKey k \<noteq> ''Content-Length''"
    "CanonicalMIMEHeaderKey k \<noteq> ''Content-Type''"
    "CanonicalMIMEHeaderKey k \<noteq> ''X-Content-Type-Options''"
  shows "Header_Get (w_header (http_Error w err code)) k = Header_Get (w_header w) k"
  using assms by (simp add: http_Error_header Header_Get_Set Header_Get_Del canonical_names)

lemma rateHeaders_http_Error:
  "rateHeaders (w_header (http_Error w err code)) limit res = rateHeaders (w_header w) limit res"
proof -
  have 1: "Header_Get (w_header (http_Error w err code)) ''X-RateLimit-Limit'' =
           Header_Get (w_header w) ''X-RateLimit-Limit''"
    by (rule http_Error_keeps) (simp_all add: canonical_names)
  have 2: "Header_Get (w_header (http_Error w err code)) ''X-RateLimit-Remaining'' =
           Header_Get (w_header w) ''X-RateLimit-Remaining''"
    by (rule http_Error_keeps) (simp_all add: canonical_names)
  have 3: "Header_Get (w_header (http_Error w err code)) ''X-RateLimit-Reset'' =
           Header_Get (w_header w) ''X-RateLimit-Reset''"
    by (rule http_Error_keeps) (simp_all add: canonical_names)
  show ?thesis by (simp only: rateHeaders_def 1 2 3)
qed

lemma Limit_denied:
  assumes "Enabled (cfg rl)" "getLimit rl r = Some (key, limit)" "limiter rl key limit = Inr res"
    "Allowed res = 0"
  shows "\<exists>wd. (\<forall>nxt. Limit rl nxt w r = Some wd) \<and> rateHeaders (w_header wd) limit res \<and>
              Header_Get (w_header wd) ''Retry-After'' = Sprintf_d (RetryAfter res sdiv Second) \<and>
              w_body wd = w_body w @ ''Too Many Requests'' @ [CHR 0x0A] \<and>
              (w_sent w = None \<longrightarrow> w_sent wd = Some (429, w_header wd))"
proof -
  let ?w3 = "SetHeader (SetHeader (SetHeader w ''X-RateLimit-Limit'' (Sprintf_d (Rate limit)))
        ''X-RateLimit-Remaining'' (Sprintf_d (Remaining res)))
        ''X-RateLimit-Reset'' (Sprintf_d (ResetAfter res sdiv Millisecond))"
  let ?w4 = "SetHeader ?w3 ''Retry-After'' (Sprintf_d (RetryAfter res sdiv Second))"
  let ?wd = "http_Error ?w4 ''Too Many Requests'' 429"
  have lim: "\<forall>nxt. Limit rl nxt w r = Some ?wd"
    using assms by (simp add: Limit_def Let_def)
  have h3: "rateHeaders (w_header ?w3) limit res" by (rule rateHeaders_after)
  have w4: "rateHeaders (w_header ?w4) limit res"
    by (simp add: rateHeaders_def SetHeader_def Header_Get_Set canonical_names)
  have h4: "rateHeaders (w_header ?wd) limit res"
    using w4 by (simp only: rateHeaders_http_Error)
  have "Header_Get (w_header ?wd) ''Retry-After'' = Header_Get (w_header ?w4) ''Retry-After''"
    by (rule http_Error_keeps) (simp_all add: canonical_names)
  then have ra: "Header_Get (w_header ?wd) ''Retry-After'' = Sprintf_d (RetryAfter res sdiv Second)"
    by (simp add: SetHeader_def Header_Get_Set)
  have body: "w_body ?wd = w_body w @ ''Too Many Requests'' @ [CHR 0x0A]"
    by (simp add: http_Error_body SetHeader_def)
  have sent: "w_sent w = None \<longrightarrow> w_sent ?wd = Some (429, w_header ?wd)"
    by (simp add: http_Error_sent SetHeader_def)
  show ?thesis by (rule exI [of _ ?wd]) (intro conjI lim h4 ra body sent)
qed

text \<open>The limiter never panics: every request gets an outcome.\<close>

lemma Limit_total: "\<exists>w'. Limit rl nxt w r = Some w'"
proof -
  obtain key limit where "getLimit rl r = Some (key, limit)"
    using getLimit_total by blast
  then show ?thesis
    by (cases "limiter rl key limit") (simp_all add: Limit_def Let_def)
qed

text \<open>
  Claim C3. When the limiter is enabled and the Counter Store call returns an error, the
  request is forwarded to the next handler with the response writer as it came in: no
  rejection is written and no header is set by the limiter.
\<close>

theorem Limit_fails_open:
  "Enabled (cfg rl) \<Longrightarrow> getLimit rl r = Some (key, limit) \<Longrightarrow> limiter rl key limit = Inl err \<Longrightarrow>
   Limit rl next w r = Some (next w r)"
  by (simp add: Limit_def)

theorem Limit_fails_open_witness:
  "Limit \<lparr>limiter = storeDown, cfg = exampleConfig\<rparr> nextOK freshWriter anonymousRequest =
     Some (nextOK freshWriter anonymousRequest) \<and>
   w_header (nextOK freshWriter anonymousRequest) = Map.empty"
proof -
  have en: "Enabled (cfg \<lparr>limiter = storeDown, cfg = exampleConfig\<rparr>)"
    by (simp add: exampleConfig_def)
  have st: "limiter \<lparr>limiter = storeDown, cfg = exampleConfig\<rparr> ''rate_limit:ip:10.0.0.1''
      \<lparr>Rate = 10, Burst = 20, Period = Second\<rparr> = Inl ''connection refused''"
    by (simp add: storeDown_def)
  have "w_header (nextOK freshWriter anonymousRequest) = Map.empty"
    by (simp add: nextOK_def Write_def WriteHeader_def freshWriter_def Let_def)
  with Limit_fails_open [OF en example_limits(1) st, of nextOK freshWriter] show ?thesis
    by simp
qed

text \<open>
  Claim C6. When the limiter is enabled and the Counter Store call succeeds, the three
  rate-limit headers are set whether the request is allowed or denied. An allowed request
  goes to the next handler with these headers set and nothing written. A denied request
  does not reach the next handler (the outcome is the same for every next handler): it
  also gets Retry-After in whole seconds, the body "Too Many Requests", and status 429
  sent together with these headers when nothing was sent before.
\<close>

theorem Limit_rate_headers:
  assumes "Enabled (cfg rl)" and "getLimit rl r = Some (key, limit)"
    and "limiter rl key limit = Inr res"
  shows "(Allowed res \<noteq> 0 \<longrightarrow>
            (\<exists>w'. Limit rl next w r = Some (next w' r) \<and> rateHeaders (w_header w') limit res \<and>
                  w_sent w' = w_sent w \<and> w_body w' = w_body w)) \<and>
         (Allowed res = 0 \<longrightarrow>
            (\<exists>wd. (\<forall>nxt. Limit rl nxt w r = Some wd) \<and> rateHeaders (w_header wd) limit res \<and>
                  Header_Get (w_header wd) ''Retry-After'' = Sprintf_d (RetryAfter res sdiv Second) \<and>
                  w_body wd = w_body w @ ''Too Many Requests'' @ [CHR 0x0A] \<and>
                  (w_sent w = None \<longrightarrow> w_sent wd = Some (429, w_header wd))))"
  using Limit_allowed [OF assms] Limit_denied [OF assms] by blast

theorem Limit_rate_headers_witness:
  "\<exists>wd. Limit \<lparr>limiter = storeDeny, cfg = exampleConfig\<rparr> nextOK freshWriter anonymousRequest = Some wd \<and>
        Header_Get (w_header wd) ''X-RateLimit-Limit'' = ''10'' \<and>
        Header_Get (w_header wd) ''X-RateLimit-Remaining'' = ''0'' \<and>
        Header_Get (w_header wd) ''X-RateLimit-Reset'' = ''2500'' \<and>
        Header_Get (w_header wd) ''Retry-After'' = ''1'' \<and>
        w_body wd = ''Too Many Requests'' @ [CHR 0x0A] \<and>
        w_sent wd = Some (429, w_header wd)"
proof -
  let ?rl = "\<lparr>limiter = storeDeny, cfg = exampleConfig\<rparr>"
  let ?res = "\<lparr>Allowed = 0, Remaining = 0, RetryAfter = 1500000000, ResetAfter = 2500000000\<rparr>"
  have en: "Enabled (cfg ?rl)" by (simp add: exampleConfig_def)
  have st: "limiter ?rl ''rate_limit:ip:10.0.0.1'' \<lparr>Rate = 10, Burst = 20, Period = Second\<rparr> = Inr ?res"
    by (simp add: storeDeny_def)
  from Limit_rate_headers [OF en example_limits(1) st, of nextOK freshWriter]
  obtain wd where
    "\<forall>nxt. Limit ?rl nxt freshWriter anonymousRequest = Some wd"
    "rateHeaders (w_header wd) \<lparr>Rate = 10, Burst = 20, Period = Second\<rparr> ?res"
    "Header_Get (w_header wd) ''Retry-After'' = Sprintf_d (RetryAfter ?res sdiv Second)"
    "w_body wd = w_body freshWriter @ ''Too Many Requests'' @ [CHR 0x0A]"
    "w_sent freshWriter = None \<longrightarrow> w_sent wd = Some (429, w_header wd)"
    by auto
  then show ?thesis
    by (intro exI [of _ wd]) (simp add: rateHeaders_def example_values freshWriter_def)
qed

text \<open>
  Claim C5, as stated, fails: the code falls through to the real-IP header only when the
  forwarded-for header itself is empty, not when its first value trims to nothing. With
  the forwarded-for header ", 203.0.113.7" and the real-IP header "10.0.0.2" the resolved
  address is the empty string, not "10.0.0.2".
\<close>

theorem getClientIP_blank_counterexample:
  "Header_Get (Header blankForwardedRequest) ''X-Real-IP'' = ''10.0.0.2'' \<and>
   getClientIP blankForwardedRequest = Some [] \<and>
   getClientIP blankForwardedRequest \<noteq> Some ''10.0.0.2''"
proof -
  have x: "Header_Get (Header blankForwardedRequest) ''X-Forwarded-For'' = '', 203.0.113.7''"
    and r: "Header_Get (Header blankForwardedRequest) ''X-Real-IP'' = ''10.0.0.2''"
    by (simp_all add: Header_Get_def canonical_names blankForwardedRequest_def)
  have t: "TrimSpace [] = []" by code_simp
  have "getClientIP blankForwardedRequest = Some []"
    by (simp add: getClientIP_def x t)
  with r show ?thesis by simp
qed

text \<open>
  Claim C5, amended. The client address is resolved in this order: when the forwarded-for
  header is not empty, its first comma-separated value, trimmed, also when that value
  trims to the empty string; else the real-IP header when it is not empty; else the peer
  address cut at its rightmost colon (the port holds no colon); a peer address with no
  colon is returned unchanged.
\<close>

theorem getClientIP_order:
  "(Header_Get (Header r) ''X-Forwarded-For'' \<noteq> [] \<longrightarrow>
      getClientIP r =
        Some (TrimSpace (takeWhile (\<lambda>c. c \<noteq> CHR '','') (Header_Get (Header r) ''X-Forwarded-For'')))) \<and>
   (Header_Get (Header r) ''X-Forwarded-For'' = [] \<and> Header_Get (Header r) ''X-Real-IP'' \<noteq> [] \<longrightarrow>
      getClientIP r = Some (Header_Get (Header r) ''X-Real-IP'')) \<and>
   (Header_Get (Header r) ''X-Forwarded-For'' = [] \<and> Header_Get (Header r) ''X-Real-IP'' = [] \<and>
    CHR '':'' \<in> set (RemoteAddr r) \<longrightarrow>
      (\<exists>ip port. getClientIP r = Some ip \<and> RemoteAddr r = ip @ CHR '':'' # port \<and>
                  CHR '':'' \<notin> set port)) \<and>
   (Header_Get (Header r) ''X-Forwarded-For'' = [] \<and> Header_Get (Header r) ''X-Real-IP'' = [] \<and>
    CHR '':'' \<notin> set (RemoteAddr r) \<longrightarrow>
      getClientIP r = Some (RemoteAddr r))"
proof (intro conjI impI)
  assume "Header_Get (Header r) ''X-Forwarded-For'' \<noteq> []"
  moreover obtain ps where "Split (Header_Get (Header r) ''X-Forwarded-For'') CHR '','' =
      takeWhile (\<lambda>x. x \<noteq> CHR '','') (Header_Get (Header r) ''X-Forwarded-For'') # ps"
    using Split_first by blast
  ultimately show "getClientIP r =
        Some (TrimSpace (takeWhile (\<lambda>c. c \<noteq> CHR '','') (Header_Get (Header r) ''X-Forwarded-For'')))"
    by (simp add: getClientIP_def Let_def)
next
  assume "Header_Get (Header r) ''X-Forwarded-For'' = [] \<and> Header_Get (Header r) ''X-Real-IP'' \<noteq> []"
  then show "getClientIP r = Some (Header_Get (Header r) ''X-Real-IP'')"
    by (simp add: getClientIP_def Let_def)
next
  assume a: "Header_Get (Header r) ''X-Forwarded-For'' = [] \<and> Header_Get (Header r) ''X-Real-IP'' = [] \<and>
    CHR '':'' \<in> set (RemoteAddr r)"
  then obtain port where
    nn: "0 \<le> LastIndex (RemoteAddr r) CHR '':''" and
    eq: "RemoteAddr r = take (nat (LastIndex (RemoteAddr r) CHR '':'')) (RemoteAddr r) @ CHR '':'' # port" and
    np: "CHR '':'' \<notin> set port"
    using LastIndex_present [of "CHR '':''" "RemoteAddr r"] by blast
  from a nn have "getClientIP r = Some (take (nat (LastIndex (RemoteAddr r) CHR '':'')) (RemoteAddr r))"
    by (simp add: getClientIP_def Let_def Contains_def)
  with eq np show "\<exists>ip port. getClientIP r = Some ip \<and> RemoteAddr r = ip @ CHR '':'' # port \<and>
                  CHR '':'' \<notin> set port"
    by blast
next
  assume "Header_Get (Header r) ''X-Forwarded-For'' = [] \<and> Header_Get (Header r) ''X-Real-IP'' = [] \<and>
    CHR '':'' \<notin> set (RemoteAddr r)"
  then show "getClientIP r = Some (RemoteAddr r)"
    by (simp add: getClientIP_def Let_def Contains_def)
qed

theorem getClientIP_order_witness:
  "getClientIP forwardedRequest = Some ''203.0.113.7'' \<and>
   getClientIP realIPRequest = Some ''10.0.0.2'' \<and>
   (\<exists>ip port. getClientIP anonymousRequest = Some ip \<and>
       ''10.0.0.1:5555'' = ip @ CHR '':'' # port \<and> CHR '':'' \<notin> set port) \<and>
   getClientIP bareRequest = Some ''localhost''"
proof -
  have 1: "getClientIP forwardedRequest = Some ''203.0.113.7''"
    using getClientIP_order [of forwardedRequest] by (simp add: example_headers example_values)
  have 2: "getClientIP realIPRequest = Some ''10.0.0.2''"
    using getClientIP_order [of realIPRequest] by (simp add: example_headers)
  have 3: "\<exists>ip port. getClientIP anonymousRequest = Some ip \<and>
       ''10.0.0.1:5555'' = ip @ CHR '':'' # port \<and> CHR '':'' \<notin> set port"
    using getClientIP_order [of anonymousRequest]
    by (simp add: example_headers) (simp add: anonymousRequest_def)
  have 4: "getClientIP bareRequest = Some ''localhost''"
    using getClientIP_order [of bareRequest]
    by (simp add: example_headers) (simp add: bareRequest_def)
  from 1 2 3 4 show ?thesis by (intro conjI)
qed

text \<open>
  Claim C4, as stated, fails: the key prefixes in the code are "rate_limit:auth:" and
  "rate_limit:ip:", not "rate:auth:" and "rate:ip:". At a request with the header
  \<open>Authorization: Bearer abc\<close> the key is not "rate:auth:Bearer abc", and at an
  anonymous request from 10.0.0.1 it is not "rate:ip:10.0.0.1".
\<close>

theorem getLimit_prefix_counterexample:
  "getLimit \<lparr>limiter = storeAllow, cfg = exampleConfig\<rparr> bearerRequest \<noteq>
     Some (''rate:auth:'' @ Header_Get (Header bearerRequest) ''Authorization'',
           \<lparr>Rate = AuthRPS exampleConfig, Burst = AuthBurst exampleConfig, Period = Second\<rparr>) \<and>
   getLimit \<lparr>limiter = storeAllow, cfg = exampleConfig\<rparr> anonymousRequest \<noteq>
     Some (''rate:ip:10.0.0.1'',
           \<lparr>Rate = PublicRPS exampleConfig, Burst = PublicBurst exampleConfig, Period = Second\<rparr>)"
  by (simp add: example_limits example_headers)

text \<open>
  Claim C4, amended. A request whose Authorization header is not empty gets the key
  "rate_limit:auth:" followed by the raw header value and the authenticated tier
  (AuthRPS, AuthBurst, one second), whatever else it carries. Any other request gets the
  key "rate_limit:ip:" followed by the resolved client address and the anonymous tier
  (PublicRPS, PublicBurst, one second). A key of one tier is never a key of the other.
\<close>

theorem getLimit_key_and_tier:
  "(Header_Get (Header r) ''Authorization'' \<noteq> [] \<longrightarrow>
      getLimit rl r =
        Some (''rate_limit:auth:'' @ Header_Get (Header r) ''Authorization'',
              \<lparr>Rate = AuthRPS (cfg rl), Burst = AuthBurst (cfg rl), Period = Second\<rparr>)) \<and>
   (Header_Get (Header r) ''Authorization'' = [] \<longrightarrow>
      (\<exists>ip. getClientIP r = Some ip \<and>
            getLimit rl r =
              Some (''rate_limit:ip:'' @ ip,
                    \<lparr>Rate = PublicRPS (cfg rl), Burst = PublicBurst (cfg rl), Period = Second\<rparr>))) \<and>
   (\<forall>a b. ''rate_limit:auth:'' @ a \<noteq> ''rate_limit:ip:'' @ b)"
proof (intro conjI impI allI)
  assume "Header_Get (Header r) ''Authorization'' \<noteq> []"
  then show "getLimit rl r =
        Some (''rate_limit:auth:'' @ Header_Get (Header r) ''Authorization'',
              \<lparr>Rate = AuthRPS (cfg rl), Burst = AuthBurst (cfg rl), Period = Second\<rparr>)"
    by (simp add: getLimit_def Let_def)
next
  assume none: "Header_Get (Header r) ''Authorization'' = []"
  obtain ip where ip: "getClientIP r = Some ip"
    using getClientIP_total by blast
  with none have "getLimit rl r =
      Some (''rate_limit:ip:'' @ ip,
            \<lparr>Rate = PublicRPS (cfg rl), Burst = PublicBurst (cfg rl), Period = Second\<rparr>)"
    by (simp add: getLimit_def Let_def)
  with ip show "\<exists>ip. getClientIP r = Some ip \<and>
            getLimit rl r =
              Some (''rate_limit:ip:'' @ ip,
                    \<lparr>Rate = PublicRPS (cfg rl), Burst = PublicBurst (cfg rl), Period = Second\<rparr>)"
    by blast
next
  fix a b :: string
  show "''rate_limit:auth:'' @ a \<noteq> ''rate_limit:ip:'' @ b" by simp
qed

theorem getLimit_key_and_tier_witness:
  "getLimit \<lparr>limiter = storeAllow, cfg = exampleConfig\<rparr> bearerRequest =
     Some (''rate_limit:auth:Bearer abc'', \<lparr>Rate = 100, Burst = 200, Period = Second\<rparr>) \<and>
   (\<exists>ip. getClientIP anonymousRequest = Some ip \<and>
      getLimit \<lparr>limiter = storeAllow, cfg = exampleConfig\<rparr> anonymousRequest =
        Some (''rate_limit:ip:'' @ ip, \<lparr>Rate = 10, Burst = 20, Period = Second\<rparr>))"
  using getLimit_key_and_tier [of bearerRequest "\<lparr>limiter = storeAllow, cfg = exampleConfig\<rparr>"]
    getLimit_key_and_tier [of anonymousRequest "\<lparr>limiter = storeAllow, cfg = exampleConfig\<rparr>"]
  by (simp add: example_headers exampleConfig_def)

subsection \<open>The auth interceptor\<close>

lemma HasPrefix_append: "HasPrefix (p @ s) p"
  by (simp add: HasPrefix_def)

lemma TrimPrefix_append: "TrimPrefix (p @ s) p = s"
  by (simp add: TrimPrefix_def HasPrefix_def)

lemma requestMD_not_ok: "requestMD ctx = (md, False) \<Longrightarrow> md = Map.empty"
  by (auto simp: requestMD_def FromIncomingContext_def FromOutgoingContext_def Let_def
      split: option.splits if_splits)

lemma authHeadersOf_empty: "authHeadersOf Map.empty = []"
  by (simp add: authHeadersOf_def MD_Get_def)

lemma Unary_public:
  "isPublic (publicEndpoints a) method \<Longrightarrow> Unary a env ctx method req invoker = invoker ctx method req"
  by (simp add: Unary_def)

lemma Unary_missing:
  assumes "\<not> isPublic (publicEndpoints a) method" and "authHeadersOf (fst (requestMD ctx)) = []"
  shows "Unary a env ctx method req invoker =
           Some (StatusError Unauthenticated ''missing authorization header'')"
  using assms by (cases "requestMD ctx") (simp add: Unary_def)

lemma Unary_header:
  assumes "\<not> isPublic (publicEndpoints a) method"
    and "authHeadersOf (fst (requestMD ctx)) = authHeader # rest"
  shows "Unary a env ctx method req invoker =
     (if \<not> HasPrefix authHeader ''Bearer ''
      then Some (StatusError Unauthenticated ''invalid authorization header format'')
      else (case ExtractMerchantID (jwtHelper a) env (TrimPrefix authHeader ''Bearer '') of
              Inl err \<Rightarrow>
                if err = ErrExpiredToken
                then Some (StatusError Unauthenticated ''token has expired'')
                else Some (StatusError Unauthenticated ''invalid token'')
            | Inr merchantID \<Rightarrow>
                invoker
                  (NewOutgoingContext ctx
                     (case FromOutgoingContext ctx of
                        (existingMD, True) \<Rightarrow> Join existingMD (Pairs ''x-merchant-id'' merchantID)
                      | (_, False) \<Rightarrow> Pairs ''x-merchant-id'' merchantID))
                  method req))"
proof (cases "requestMD ctx")
  case (Pair md ok)
  with assms(2) have auth: "authHeadersOf md = authHeader # rest" by simp
  then have ne: "md \<noteq> Map.empty" using authHeadersOf_empty by auto
  with Pair have ok: "ok" using requestMD_not_ok [of ctx md] by (cases ok) auto
  show ?thesis
    using assms(1) Pair auth ne ok by (simp add: Unary_def Let_def split: sum.splits)
qed

text \<open>
  Claim C7, as stated, fails on the wording of the first rejection: the message in the
  code is "missing authorization header", not "missing authorization". A call to an
  endpoint outside the registry with no metadata at all is not rejected with the claimed
  message.
\<close>

theorem Unary_missing_counterexample:
  "\<not> isPublic (publicEndpoints exampleInterceptor) ''/user.v1.MerchantService/GetMerchant'' \<and>
   Unary exampleInterceptor exampleEnv noMetadata ''/user.v1.MerchantService/GetMerchant'' () invokerOK \<noteq>
     Some (StatusError Unauthenticated ''missing authorization'')"
  by (simp add: Unary_def requestMD_def FromIncomingContext_def FromOutgoingContext_def
      noMetadata_def exampleInterceptor_def isPublic_def)

text \<open>
  Claim C7, amended. A call to an endpoint in the registry is forwarded to the invoker
  with the same context, method and request, whatever credential it carries or lacks. For
  an endpoint outside the registry: when the metadata the interceptor reads holds no
  authorization value, the call is rejected as unauthenticated with the message "missing
  authorization header"; when the first authorization value does not start with
  "Bearer ", it is rejected as unauthenticated with the message "invalid authorization
  header format". Both rejections are the same for every invoker: the invoker is not
  called. No authorization value is read when neither the incoming nor the outgoing
  metadata holds one.
\<close>

theorem Unary_admission:
  "(isPublic (publicEndpoints a) method \<longrightarrow>
      Unary a env ctx method req invoker = invoker ctx method req) \<and>
   (\<not> isPublic (publicEndpoints a) method \<and> authHeadersOf (fst (requestMD ctx)) = [] \<longrightarrow>
      Unary a env ctx method req invoker =
        Some (StatusError Unauthenticated ''missing authorization header'')) \<and>
   (\<not> isPublic (publicEndpoints a) method \<and>
    (\<exists>rest. authHeadersOf (fst (requestMD ctx)) = authHeader # rest) \<and>
    \<not> HasPrefix authHeader ''Bearer '' \<longrightarrow>
      Unary a env ctx method req invoker =
        Some (StatusError Unauthenticated ''invalid authorization header format'')) \<and>
   ((\<forall>md. Incoming ctx = Some md \<or> Outgoing ctx = Some md \<longrightarrow> authHeadersOf md = []) \<longrightarrow>
      authHeadersOf (fst (requestMD ctx)) = [])"
proof (intro conjI impI)
  assume "isPublic (publicEndpoints a) method"
  then show "Unary a env ctx method req invoker = invoker ctx method req"
    by (rule Unary_public)
next
  assume "\<not> isPublic (publicEndpoints a) method \<and> authHeadersOf (fst (requestMD ctx)) = []"
  then show "Unary a env ctx method req invoker =
        Some (StatusError Unauthenticated ''missing authorization header'')"
    by (simp add: Unary_missing)
next
  assume h: "\<not> isPublic (publicEndpoints a) method \<and>
    (\<exists>rest. authHeadersOf (fst (requestMD ctx)) = authHeader # rest) \<and>
    \<not> HasPrefix authHeader ''Bearer ''"
  then obtain rest where "authHeadersOf (fst (requestMD ctx)) = authHeader # rest" by blast
  with h show "Unary a env ctx method req invoker =
        Some (StatusError Unauthenticated ''invalid authorization header format'')"
    using Unary_header [of a "method" ctx authHeader rest env req invoker] by simp
next
  assume "\<forall>md. Incoming ctx = Some md \<or> Outgoing ctx = Some md \<longrightarrow> authHeadersOf md = []"
  then show "authHeadersOf (fst (requestMD ctx)) = []"
    by (auto simp: requestMD_def FromIncomingContext_def FromOutgoingContext_def Let_def
        authHeadersOf_empty split: option.splits)
qed

theorem Unary_admission_witness:
  "Unary exampleInterceptor exampleEnv noMetadata ''/user.v1.MerchantService/LoginMerchant'' ()
     invokerOK = invokerOK noMetadata ''/user.v1.MerchantService/LoginMerchant'' () \<and>
   Unary exampleInterceptor exampleEnv noMetadata ''/user.v1.MerchantService/GetMerchant'' ()
     invokerOK = Some (StatusError Unauthenticated ''missing authorization header'') \<and>
   Unary exampleInterceptor exampleEnv basicAuthCtx ''/user.v1.MerchantService/GetMerchant'' ()
     invokerOK = Some (StatusError Unauthenticated ''invalid authorization header format'')"
proof -
  have pub: "isPublic (publicEndpoints exampleInterceptor) ''/user.v1.MerchantService/LoginMerchant''"
    by (simp add: isPublic_def exampleInterceptor_def)
  have prv: "\<not> isPublic (publicEndpoints exampleInterceptor) ''/user.v1.MerchantService/GetMerchant''"
    by (simp add: isPublic_def exampleInterceptor_def)
  have none: "authHeadersOf (fst (requestMD noMetadata)) = []"
    by (simp add: requestMD_def FromIncomingContext_def FromOutgoingContext_def noMetadata_def
        authHeadersOf_empty)
  have basic: "authHeadersOf (fst (requestMD basicAuthCtx)) = [''Basic dXNlcjpwdw=='']"
    by (simp add: requestMD_def FromIncomingContext_def basicAuthCtx_def authHeadersOf_def
        MD_Get_def)
  have np: "\<not> HasPrefix ''Basic dXNlcjpwdw=='' ''Bearer ''"
    by (simp add: HasPrefix_def)
  show ?thesis
    using Unary_admission [of exampleInterceptor "''/user.v1.MerchantService/LoginMerchant''"
        exampleEnv noMetadata "()" invokerOK]
      Unary_admission [of exampleInterceptor "''/user.v1.MerchantService/GetMerchant''"
        exampleEnv noMetadata "()" invokerOK]
      Unary_admission [of exampleInterceptor "''/user.v1.MerchantService/GetMerchant''"
        exampleEnv basicAuthCtx "()" invokerOK "''Basic dXNlcjpwdw==''"]
      pub prv none basic np
    by simp
qed

subsection \<open>The credential validator\<close>

lemma ValidateToken_library_error:
  "ParseWithClaims env tokenString
     (\<lambda>token. if Method token \<noteq> SigningMethodHMAC then Inl ErrInvalidToken
              else Inr (secretKey h)) = Inl err \<Longrightarrow>
   ValidateToken h env tokenString = Inl err"
  by (simp add: ValidateToken_def)

lemma ParseWithClaims_expired:
  assumes "ParseUnverified env tokenString = Some token"
    and "keyFunc token = Inr key" and "Verify env (Method token) tokenString key"
    and "ExpiresAt (Claims token) = Some expiry" and "expiry \<le> NowParse env"
  shows "ParseWithClaims env tokenString keyFunc = Inl (JWTError ErrTokenInvalidClaims)"
  using assms by (simp add: ParseWithClaims_def Validate_def)

text \<open>
  \<open>ValidateToken\<close> returns its own \<open>ErrExpiredToken\<close> only for a token that the
  library accepted, so only when the expiry lies strictly between the two clock readings.
\<close>

lemma ErrExpiredToken_only_between_readings:
  assumes "ValidateToken h env tokenString = Inl ErrExpiredToken"
  shows "\<exists>token expiry. ParseUnverified env tokenString = Some token \<and>
           ExpiresAt (Claims token) = Some expiry \<and>
           NowParse env < expiry \<and> expiry < NowCheck env"
  using assms
  by (auto simp: ValidateToken_def ParseWithClaims_def Validate_def Let_def
      split: option.splits sum.splits if_splits)

text \<open>
  Claim C1 does not hold of the code. A token with a valid HMAC signature whose expiry is
  in the past is already refused by the library's parser, whose error \<open>ValidateToken\<close>
  returns as it is; that error is not \<open>ErrExpiredToken\<close>, so the interceptor answers
  "invalid token", not "token has expired".
\<close>

theorem expired_token_reported_invalid:
  assumes "\<not> isPublic (publicEndpoints a) method"
    and "authHeadersOf (fst (requestMD ctx)) = (''Bearer '' @ tokenString) # rest"
    and "ParseUnverified env tokenString = Some token"
    and "Method token = SigningMethodHMAC"
    and "Verify env SigningMethodHMAC tokenString (secretKey (jwtHelper a))"
    and "ExpiresAt (Claims token) = Some expiry" and "expiry < NowParse env"
  shows "ValidateToken (jwtHelper a) env tokenString = Inl (JWTError ErrTokenInvalidClaims) \<and>
         Unary a env ctx method req invoker = Some (StatusError Unauthenticated ''invalid token'')"
proof -
  have "ParseWithClaims env tokenString
     (\<lambda>token. if Method token \<noteq> SigningMethodHMAC then Inl ErrInvalidToken
              else Inr (secretKey (jwtHelper a))) = Inl (JWTError ErrTokenInvalidClaims)"
    using assms(3-7) by (intro ParseWithClaims_expired [where token = token and expiry = expiry]) simp_all
  then have v: "ValidateToken (jwtHelper a) env tokenString = Inl (JWTError ErrTokenInvalidClaims)"
    by (rule ValidateToken_library_error)
  then have e: "ExtractMerchantID (jwtHelper a) env tokenString = Inl (JWTError ErrTokenInvalidClaims)"
    by (simp add: ExtractMerchantID_def)
  have "Unary a env ctx method req invoker = Some (StatusError Unauthenticated ''invalid token'')"
    using Unary_header [OF assms(1,2), of env req invoker]
    by (simp only: HasPrefix_append TrimPrefix_append e) simp
  with v show ?thesis by simp
qed

theorem expired_token_reported_invalid_witness:
  "ValidateToken (jwtHelper exampleInterceptor) exampleEnv ''expired.jwt.token'' =
     Inl (JWTError ErrTokenInvalidClaims) \<and>
   Unary exampleInterceptor exampleEnv expiredTokenCtx ''/user.v1.MerchantService/GetMerchant'' ()
     invokerOK = Some (StatusError Unauthenticated ''invalid token'')"
proof -
  have prv: "\<not> isPublic (publicEndpoints exampleInterceptor) ''/user.v1.MerchantService/GetMerchant''"
    by (simp add: isPublic_def exampleInterceptor_def)
  have hdr: "authHeadersOf (fst (requestMD expiredTokenCtx)) = (''Bearer '' @ ''expired.jwt.token'') # []"
    by (simp add: requestMD_def FromIncomingContext_def expiredTokenCtx_def authHeadersOf_def
        MD_Get_def)
  have tok: "ParseUnverified exampleEnv ''expired.jwt.token'' =
      Some \<lparr>Method = SigningMethodHMAC,
            Claims = \<lparr>MerchantID = ''merchant-1'', ExpiresAt = Some 1000, NotBefore = None\<rparr>,
            Valid = False\<rparr>"
    by (simp add: exampleEnv_def exampleParse_def)
  have sig: "Verify exampleEnv SigningMethodHMAC ''expired.jwt.token''
      (secretKey (jwtHelper exampleInterceptor))"
    by (simp add: exampleEnv_def exampleVerify_def exampleInterceptor_def)
  have past: "(1000::int) < NowParse exampleEnv" by (simp add: exampleEnv_def)
  show ?thesis
    using expired_token_reported_invalid [OF prv hdr tok _ sig _ past, of "()" invokerOK] by simp
qed

subsection \<open>The endpoint classifier\<close>

lemma isPublicEndpoint_iff:
  "isPublicEndpoint m \<longleftrightarrow> Options m = Some (MethodOptions (Some (BoolValue True)))"
proof (cases "Options m")
  case None
  then show ?thesis by (simp add: isPublicEndpoint_def)
next
  case (Some opts)
  show ?thesis
  proof (cases opts)
    case NilMethodOptions
    with Some show ?thesis by (simp add: isPublicEndpoint_def)
  next
    case (MethodOptions ext)
    show ?thesis
    proof (cases ext)
      case None
      with Some MethodOptions show ?thesis by (simp add: isPublicEndpoint_def)
    next
      case (Some v)
      with \<open>Options m = Some opts\<close> MethodOptions show ?thesis
        by (cases v) (simp_all add: isPublicEndpoint_def)
    qed
  qed
qed

lemma scanMethods_lookup:
  "scanMethods s ms pe k =
     (if \<exists>m \<in> set ms. isPublicEndpoint m \<and> k = fullMethodName s m then Some True else pe k)"
  by (induction ms arbitrary: pe) auto

lemma scanServices_lookup:
  "scanServices ss pe k =
     (if \<exists>s \<in> set ss. \<exists>m \<in> set (Methods s). isPublicEndpoint m \<and> k = fullMethodName s m
      then Some True else pe k)"
proof (induction ss arbitrary: pe)
  case Nil
  show ?case by simp
next
  case (Cons s ss)
  show ?case by (simp add: Cons.IH scanMethods_lookup) blast
qed

lemma scanFiles_lookup:
  "scanFiles fds pe k =
     (if \<exists>fd \<in> set fds. \<exists>s \<in> set (Services fd). \<exists>m \<in> set (Methods s).
           isPublicEndpoint m \<and> k = fullMethodName s m
      then Some True else pe k)"
proof (induction fds arbitrary: pe)
  case Nil
  show ?case by simp
next
  case (Cons fd fds)
  show ?case by (simp add: Cons.IH scanServices_lookup) blast
qed

text \<open>
  Claim C9. A method counts as public exactly when its options are present and the
  public_endpoint extension is set in them to the boolean true; nil options, an unset
  extension, false or a value of another type exclude it. The first discovery yields the
  map whose keys are exactly the identifiers "/" service full name "/" method name of the
  public methods of the registered files, each mapped to true.
\<close>

theorem DiscoverPublicEndpoints_exact:
  "(isPublicEndpoint m \<longleftrightarrow> Options m = Some (MethodOptions (Some (BoolValue True)))) \<and>
   fst (DiscoverPublicEndpoints files None) k =
     (if \<exists>fd \<in> set files. \<exists>s \<in> set (Services fd). \<exists>m' \<in> set (Methods s).
           Options m' = Some (MethodOptions (Some (BoolValue True))) \<and>
           k = ''/'' @ FullName s @ ''/'' @ Name m'
      then Some True else None)"
proof
  show "isPublicEndpoint m \<longleftrightarrow> Options m = Some (MethodOptions (Some (BoolValue True)))"
    by (rule isPublicEndpoint_iff)
next
  have "fst (DiscoverPublicEndpoints files None) k = scanFiles files Map.empty k"
    by (simp add: DiscoverPublicEndpoints_def Let_def)
  then show "fst (DiscoverPublicEndpoints files None) k =
     (if \<exists>fd \<in> set files. \<exists>s \<in> set (Services fd). \<exists>m' \<in> set (Methods s).
           Options m' = Some (MethodOptions (Some (BoolValue True))) \<and>
           k = ''/'' @ FullName s @ ''/'' @ Name m'
      then Some True else None)"
    by (simp only: scanFiles_lookup isPublicEndpoint_iff fullMethodName_def)
qed

theorem DiscoverPublicEndpoints_exact_witness:
  "fst (DiscoverPublicEndpoints exampleFiles None) ''/user.v1.MerchantService/LoginMerchant'' = Some True \<and>
   fst (DiscoverPublicEndpoints exampleFiles None) ''/user.v1.MerchantService/GetMerchant'' = None \<and>
   fst (DiscoverPublicEndpoints exampleFiles None) ''/user.v1.MerchantService/UpdateMerchant'' = None \<and>
   fst (DiscoverPublicEndpoints exampleFiles None) ''/user.v1.MerchantService/DeleteMerchant'' = None \<and>
   fst (DiscoverPublicEndpoints exampleFiles None) ''/user.v1.MerchantService/Ping'' = None"
  using DiscoverPublicEndpoints_exact [of undefined exampleFiles "''/user.v1.MerchantService/LoginMerchant''"]
    DiscoverPublicEndpoints_exact [of undefined exampleFiles "''/user.v1.MerchantService/GetMerchant''"]
    DiscoverPublicEndpoints_exact [of undefined exampleFiles "''/user.v1.MerchantService/UpdateMerchant''"]
    DiscoverPublicEndpoints_exact [of undefined exampleFiles "''/user.v1.MerchantService/DeleteMerchant''"]
    DiscoverPublicEndpoints_exact [of undefined exampleFiles "''/user.v1.MerchantService/Ping''"]
  by (simp add: exampleFiles_def)
subsection \<open>The response envelope marshaler\<close>

lemma json_Marshal_envelope:
  "json_Marshal enc [(''status'', AInt st), (''message'', msg), (''data'', ANil)] =
     (case jsonOf enc msg of
        Inl e \<Rightarrow> Inl (Error e)
      | Inr m \<Rightarrow> Inr (JObject [(''data'', JNull), (''message'', m), (''status'', JNumber (of_int st))]))"
  by (simp add: json_Marshal_def split: sum.splits)

lemma Marshal_map:
  assumes "errMap ''code'' = Some code" and "errMap ''message'' = Some msg"
  shows "Marshal c enc (VMap errMap) =
     (case jsonOf enc msg of
        Inl e \<Rightarrow> Inl (Error e)
      | Inr m \<Rightarrow>
          Inr (JObject [(''data'', JNull), (''message'', m),
                        (''status'', JNumber (of_int (mapStatus code)))]))"
proof -
  have "errorEntries (VMap errMap) = Some (code, msg)"
    using assms by (simp add: errorEntries_def)
  then have "Marshal c enc (VMap errMap) =
      json_Marshal enc [(''status'', AInt (mapStatus code)), (''message'', msg), (''data'', ANil)]"
    by (simp add: Marshal_def mapStatus_def Let_def)
  then show ?thesis by (simp only: json_Marshal_envelope)
qed

lemma Marshal_status:
  "Marshal c enc (VStatus (Some s)) =
     Inr (JObject [(''data'', JNull), (''message'', JString (Message s)),
                   (''status'', JNumber (of_int (HTTPStatusFromCode (toCode (Code s)))))])"
proof -
  have "Marshal c enc (VStatus (Some s)) =
      json_Marshal enc [(''status'', AInt (HTTPStatusFromCode (toCode (Code s)))),
                        (''message'', AString (Message s)), (''data'', ANil)]"
    by (simp add: Marshal_def errorEntries_def Let_def)
  then show ?thesis by (simp only: json_Marshal_envelope) simp
qed

lemma Marshal_success:
  assumes "errorEntries v = None" and "\<forall>s. v \<noteq> VStatus s" and "JSONPb_Marshal c v = Inr d"
  shows "Marshal c enc v =
     Inr (JObject [(''status'', JNumber 200), (''message'', JString ''success''), (''data'', d)])"
  using assms by (cases v) (simp_all add: Marshal_def)

lemma isEnvelope_failure:
  "isEnvelope (JObject [(''data'', d), (''message'', m), (''status'', s)])"
  by (auto simp: isEnvelope_def)

lemma isEnvelope_success:
  "isEnvelope (JObject [(''status'', s), (''message'', m), (''data'', d)])"
  by (auto simp: isEnvelope_def)

lemma Marshal_isEnvelope:
  assumes "Marshal c enc v = Inr j"
  shows "isEnvelope j"
proof (cases "errorEntries v")
  case (Some cm)
  obtain code msg where cm: "cm = (code, msg)" by (cases cm)
  from Some cm obtain errMap where v: "v = VMap errMap"
    and "errMap ''code'' = Some code" and "errMap ''message'' = Some msg"
    by (auto simp: errorEntries_def split: GoValue.splits option.splits)
  then have "Marshal c enc v =
     (case jsonOf enc msg of
        Inl e \<Rightarrow> Inl (Error e)
      | Inr m \<Rightarrow>
          Inr (JObject [(''data'', JNull), (''message'', m),
                        (''status'', JNumber (of_int (mapStatus code)))]))"
    by (simp add: Marshal_map)
  with assms show ?thesis
    by (cases "jsonOf enc msg") (auto simp: isEnvelope_failure)
next
  case None
  show ?thesis
  proof (cases "\<exists>s. v = VStatus s")
    case True
    then obtain s where v: "v = VStatus s" by blast
    show ?thesis
    proof (cases s)
      case None
      with v assms show ?thesis by (simp add: Marshal_def errorEntries_def)
    next
      case (Some st)
      with v assms show ?thesis by (auto simp: Marshal_status isEnvelope_failure)
    qed
  next
    case False
    then have ns: "\<forall>s. v \<noteq> VStatus s" by blast
    show ?thesis
    proof (cases "JSONPb_Marshal c v")
      case (Inl e)
      with None ns assms show ?thesis by (cases v) (simp_all add: Marshal_def)
    next
      case (Inr d)
      with None ns assms show ?thesis by (auto simp: Marshal_success isEnvelope_success)
    qed
  qed
qed

lemma http_Error_content_type:
  "Header_Get (w_header (http_Error w err code)) ''Content-Type'' = ''text/plain; charset=utf-8''"
  by (simp add: http_Error_header Header_Get_Set canonical_names)


text \<open>
  Claim C10, as stated, fails in two ways. A \<open>map[string]interface{}\<close> with a code and
  a message whose message value the JSON encoder cannot encode gets no envelope: the
  encoder's error is returned. A string-keyed map of another Go type, here a
  \<open>map[string]string\<close> with both keys, is not taken for a failure: it is wrapped on the
  success path, with status 200, the message "success" and the map as data.
\<close>

theorem Marshal_map_counterexample:
  "Marshal exampleMarshaler noOther (VMap [''code'' \<mapsto> AInt 5, ''message'' \<mapsto> AOther ()]) =
     Inl (Error ''json: unsupported type'') \<and>
   Marshal codeMessageMarshaler noOther
     (VStringMap [''code'' \<mapsto> ''5'', ''message'' \<mapsto> ''merchant not found'']) =
     Inr (JObject [(''status'', JNumber 200), (''message'', JString ''success''),
                   (''data'', JObject [(''code'', JString ''5''),
                                       (''message'', JString ''merchant not found'')])])"
proof -
  have "Marshal exampleMarshaler noOther (VMap [''code'' \<mapsto> AInt 5, ''message'' \<mapsto> AOther ()]) =
     Inl (Error ''json: unsupported type'')"
    by (simp add: Marshal_map noOther_def)
  moreover have "Marshal codeMessageMarshaler noOther
     (VStringMap [''code'' \<mapsto> ''5'', ''message'' \<mapsto> ''merchant not found'']) =
     Inr (JObject [(''status'', JNumber 200), (''message'', JString ''success''),
                   (''data'', JObject [(''code'', JString ''5''),
                                       (''message'', JString ''merchant not found'')])])"
    by (simp add: Marshal_def errorEntries_def codeMessageMarshaler_def codeMessagePb_def)
  ultimately show ?thesis by simp
qed

text \<open>
  Claim C10, amended. A \<open>map[string]interface{}\<close> with both a "code" and a "message"
  entry whose message value the JSON encoder can encode is answered with the failure
  envelope, data null and the message taken from the map, whatever else the map holds,
  also when it is a legitimate success payload of that shape; when the code is not an
  int, an int32 or a float64, the status is 200 and data is still null. When the message
  value cannot be encoded, the encoder's error is returned. A \<open>map[string]string\<close> is
  wrapped on the success path whatever keys it holds.
\<close>

theorem Marshal_error_shaped_map:
  "(errMap ''code'' = Some code \<and> errMap ''message'' = Some msg \<and> jsonOf enc msg = Inr m \<longrightarrow>
      (\<exists>st. Marshal c enc (VMap errMap) =
              Inr (JObject [(''data'', JNull), (''message'', m), (''status'', JNumber (of_int st))]) \<and>
            ((\<forall>n. code \<noteq> AInt n) \<and> (\<forall>n. code \<noteq> AInt32 n) \<and> (\<forall>q. code \<noteq> AFloat64 q) \<longrightarrow>
               st = 200))) \<and>
   (errMap ''code'' = Some code \<and> errMap ''message'' = Some msg \<and> jsonOf enc msg = Inl e \<longrightarrow>
      Marshal c enc (VMap errMap) = Inl (Error e)) \<and>
   (JSONPb_Marshal c (VStringMap sm) = Inr d \<longrightarrow>
      Marshal c enc (VStringMap sm) =
        Inr (JObject [(''status'', JNumber 200), (''message'', JString ''success''), (''data'', d)]))"
proof (intro conjI impI)
  assume h: "errMap ''code'' = Some code \<and> errMap ''message'' = Some msg \<and> jsonOf enc msg = Inr m"
  then have 1: "Marshal c enc (VMap errMap) =
      Inr (JObject [(''data'', JNull), (''message'', m),
                    (''status'', JNumber (of_int (mapStatus code)))])"
    by (simp add: Marshal_map)
  have 2: "(\<forall>n. code \<noteq> AInt n) \<and> (\<forall>n. code \<noteq> AInt32 n) \<and> (\<forall>q. code \<noteq> AFloat64 q) \<longrightarrow>
      mapStatus code = 200"
    by (cases code) (simp_all add: mapStatus_def)
  show "\<exists>st. Marshal c enc (VMap errMap) =
              Inr (JObject [(''data'', JNull), (''message'', m), (''status'', JNumber (of_int st))]) \<and>
            ((\<forall>n. code \<noteq> AInt n) \<and> (\<forall>n. code \<noteq> AInt32 n) \<and> (\<forall>q. code \<noteq> AFloat64 q) \<longrightarrow>
               st = 200)"
    by (rule exI [of _ "mapStatus code"]) (intro conjI 1 2)
next
  assume "errMap ''code'' = Some code \<and> errMap ''message'' = Some msg \<and> jsonOf enc msg = Inl e"
  then show "Marshal c enc (VMap errMap) = Inl (Error e)"
    by (simp add: Marshal_map)
next
  assume "JSONPb_Marshal c (VStringMap sm) = Inr d"
  then show "Marshal c enc (VStringMap sm) =
        Inr (JObject [(''status'', JNumber 200), (''message'', JString ''success''), (''data'', d)])"
    by (simp add: Marshal_def errorEntries_def)
qed

theorem Marshal_error_shaped_map_witness:
  "Marshal exampleMarshaler noOther
     (VMap [''code'' \<mapsto> AString ''E42'', ''message'' \<mapsto> AString ''order shipped'',
            ''total'' \<mapsto> AInt 3]) =
     Inr (JObject [(''data'', JNull), (''message'', JString ''order shipped''),
                   (''status'', JNumber 200)]) \<and>
   Marshal exampleMarshaler noOther (VMap [''code'' \<mapsto> AInt 5, ''message'' \<mapsto> AOther ()]) =
     Inl (Error ''json: unsupported type'') \<and>
   Marshal exampleMarshaler noOther (VStringMap [''code'' \<mapsto> ''5'', ''message'' \<mapsto> ''x'']) =
     Inr (JObject [(''status'', JNumber 200), (''message'', JString ''success''),
                   (''data'', JObject [(''foo'', JString ''bar'')])])"
proof -
  have 1: "Marshal exampleMarshaler noOther
     (VMap [''code'' \<mapsto> AString ''E42'', ''message'' \<mapsto> AString ''order shipped'',
            ''total'' \<mapsto> AInt 3]) =
     Inr (JObject [(''data'', JNull), (''message'', JString ''order shipped''),
                   (''status'', JNumber 200)])"
    using Marshal_error_shaped_map
      [where errMap = "[''code'' \<mapsto> AString ''E42'', ''message'' \<mapsto> AString ''order shipped'',
            ''total'' \<mapsto> AInt 3]"
        and code = "AString ''E42''" and msg = "AString ''order shipped''" and enc = noOther
        and m = "JString ''order shipped''" and c = exampleMarshaler and e = "[]" and sm = Map.empty
        and d = JNull]
    by auto
  have 2: "Marshal exampleMarshaler noOther (VMap [''code'' \<mapsto> AInt 5, ''message'' \<mapsto> AOther ()]) =
     Inl (Error ''json: unsupported type'')"
    using Marshal_error_shaped_map
      [where errMap = "[''code'' \<mapsto> AInt 5, ''message'' \<mapsto> AOther ()]"
        and code = "AInt 5" and msg = "AOther ()" and enc = noOther
        and m = JNull and c = exampleMarshaler and e = "''json: unsupported type''"
        and sm = Map.empty and d = JNull]
    by (simp add: noOther_def)
  have 3: "Marshal exampleMarshaler noOther (VStringMap [''code'' \<mapsto> ''5'', ''message'' \<mapsto> ''x'']) =
     Inr (JObject [(''status'', JNumber 200), (''message'', JString ''success''),
                   (''data'', JObject [(''foo'', JString ''bar'')])])"
    using Marshal_error_shaped_map
      [where errMap = "Map.empty :: string \<rightharpoonup> unit any" and code = ANil and msg = ANil
        and enc = noOther and m = JNull and c = exampleMarshaler and e = "[]"
        and sm = "[''code'' \<mapsto> ''5'', ''message'' \<mapsto> ''x'']"
        and d = "JObject [(''foo'', JString ''bar'')]"]
    by (simp add: exampleMarshaler_def examplePb_def)
  from 1 2 3 show ?thesis by (intro conjI)
qed




text \<open>
  Claim C2, as stated, fails for rate-limit rejections: the limiter answers a denied
  request itself with the plain text "Too Many Requests", which is no JSON object and so
  not the envelope.
\<close>

theorem rate_limit_rejection_counterexample:
  "map_option w_body
     (Limit \<lparr>limiter = storeDeny, cfg = exampleConfig\<rparr> nextOK freshWriter anonymousRequest) =
     Some (''Too Many Requests'' @ [CHR 0x0A]) \<and>
   \<not> JSONObjectText (''Too Many Requests'' @ [CHR 0x0A])"
proof -
  have en: "Enabled (cfg \<lparr>limiter = storeDeny, cfg = exampleConfig\<rparr>)"
    by (simp add: exampleConfig_def)
  have st: "limiter \<lparr>limiter = storeDeny, cfg = exampleConfig\<rparr> ''rate_limit:ip:10.0.0.1''
      \<lparr>Rate = 10, Burst = 20, Period = Second\<rparr> =
      Inr \<lparr>Allowed = 0, Remaining = 0, RetryAfter = 1500000000, ResetAfter = 2500000000\<rparr>"
    by (simp add: storeDeny_def)
  obtain wd where
    "\<forall>nxt. Limit \<lparr>limiter = storeDeny, cfg = exampleConfig\<rparr> nxt freshWriter anonymousRequest = Some wd"
    "w_body wd = w_body freshWriter @ ''Too Many Requests'' @ [CHR 0x0A]"
    using Limit_denied [OF en example_limits(1) st, of freshWriter] by auto
  then have "map_option w_body
     (Limit \<lparr>limiter = storeDeny, cfg = exampleConfig\<rparr> nextOK freshWriter anonymousRequest) =
     Some (''Too Many Requests'' @ [CHR 0x0A])"
    by (simp add: freshWriter_def)
  moreover have "\<not> JSONObjectText (''Too Many Requests'' @ [CHR 0x0A])"
    by (simp add: JSONObjectText_def jsonSpace_def)
  ultimately show ?thesis by simp
qed

text \<open>
  Claim C2, amended. Every document the marshaler produces, on the success path and on
  the failure path alike, is one JSON object with exactly the three keys status, message
  and data. A rate-limit rejection does not pass through the marshaler: its body is the
  plain text "Too Many Requests" with content type text/plain, sent with status 429 when
  nothing was sent before.
\<close>

theorem Marshal_always_envelope:
  "(Marshal c enc v = Inr j \<longrightarrow> isEnvelope j) \<and>
   (Enabled (cfg rl) \<and> getLimit rl r = Some (key, limit) \<and> limiter rl key limit = Inr res \<and>
    Allowed res = 0 \<longrightarrow>
      (\<exists>wd. Limit rl nxt w r = Some wd \<and>
            w_body wd = w_body w @ ''Too Many Requests'' @ [CHR 0x0A] \<and>
            Header_Get (w_header wd) ''Content-Type'' = ''text/plain; charset=utf-8'' \<and>
            (w_sent w = None \<longrightarrow> w_sent wd = Some (429, w_header wd))))"
proof (intro conjI impI)
  assume "Marshal c enc v = Inr j"
  then show "isEnvelope j" by (rule Marshal_isEnvelope)
next
  assume h: "Enabled (cfg rl) \<and> getLimit rl r = Some (key, limit) \<and>
    limiter rl key limit = Inr res \<and> Allowed res = 0"
  then have "Limit rl nxt w r =
      Some (http_Error
        (SetHeader
          (SetHeader
            (SetHeader (SetHeader w ''X-RateLimit-Limit'' (Sprintf_d (Rate limit)))
               ''X-RateLimit-Remaining'' (Sprintf_d (Remaining res)))
            ''X-RateLimit-Reset'' (Sprintf_d (ResetAfter res sdiv Millisecond)))
          ''Retry-After'' (Sprintf_d (RetryAfter res sdiv Second)))
        ''Too Many Requests'' 429)"
    by (simp add: Limit_def Let_def)
  then show "\<exists>wd. Limit rl nxt w r = Some wd \<and>
            w_body wd = w_body w @ ''Too Many Requests'' @ [CHR 0x0A] \<and>
            Header_Get (w_header wd) ''Content-Type'' = ''text/plain; charset=utf-8'' \<and>
            (w_sent w = None \<longrightarrow> w_sent wd = Some (429, w_header wd))"
    by (simp add: http_Error_body http_Error_content_type http_Error_sent SetHeader_def)
qed

theorem Marshal_always_envelope_witness:
  "isEnvelope
     (JObject [(''status'', JNumber 200), (''message'', JString ''success''),
               (''data'', JObject [(''foo'', JString ''bar'')])]) \<and>
   (\<exists>wd. Limit \<lparr>limiter = storeDeny, cfg = exampleConfig\<rparr> nextOK freshWriter anonymousRequest =
            Some wd \<and>
         w_body wd = ''Too Many Requests'' @ [CHR 0x0A] \<and>
         Header_Get (w_header wd) ''Content-Type'' = ''text/plain; charset=utf-8'' \<and>
         w_sent wd = Some (429, w_header wd))"
proof -
  have m: "Marshal exampleMarshaler noOther (VOther ()) =
     Inr (JObject [(''status'', JNumber 200), (''message'', JString ''success''),
                   (''data'', JObject [(''foo'', JString ''bar'')])])"
    by (simp add: Marshal_def errorEntries_def exampleMarshaler_def examplePb_def)
  have l: "Enabled (cfg \<lparr>limiter = storeDeny, cfg = exampleConfig\<rparr>) \<and>
      getLimit \<lparr>limiter = storeDeny, cfg = exampleConfig\<rparr> anonymousRequest =
        Some (''rate_limit:ip:10.0.0.1'', \<lparr>Rate = 10, Burst = 20, Period = Second\<rparr>) \<and>
      limiter \<lparr>limiter = storeDeny, cfg = exampleConfig\<rparr> ''rate_limit:ip:10.0.0.1''
        \<lparr>Rate = 10, Burst = 20, Period = Second\<rparr> =
        Inr \<lparr>Allowed = 0, Remaining = 0, RetryAfter = 1500000000, ResetAfter = 2500000000\<rparr> \<and>
      Allowed \<lparr>Allowed = 0, Remaining = 0, RetryAfter = 1500000000, ResetAfter = 2500000000\<rparr> = 0"
    by (simp add: exampleConfig_def storeDeny_def example_limits [unfolded exampleConfig_def])
  show ?thesis
    using Marshal_always_envelope [where c = exampleMarshaler and enc = noOther
        and v = "VOther ()" and rl = "\<lparr>limiter = storeDeny, cfg = exampleConfig\<rparr>"
        and r = anonymousRequest and key = "''rate_limit:ip:10.0.0.1''"
        and limit = "\<lparr>Rate = 10, Burst = 20, Period = Second\<rparr>"
        and res = "\<lparr>Allowed = 0, Remaining = 0, RetryAfter = 1500000000, ResetAfter = 2500000000\<rparr>"
        and nxt = nextOK and w = freshWriter] m l
    by (simp add: freshWriter_def)
qed

end
